theory Spec2Isabelle
  imports Complex_Main
begin

section \<open>ScrollVelocity: the tracker of scroll-velocity v0.2.0\<close>

text \<open>
  A shallow embedding of the class \<open>ScrollVelocity\<close> (the UMD build of version 0.2.0).
  The numeric fields of a tracker are embedded as \<^typ>\<open>real\<close>: the finite numbers,
  with exact arithmetic and without rounding. Wherever the source divides, the divisor
  is shown to be non-zero (see \<open>instantaneous_checked\<close>), so the convention
  \<open>x / 0 = 0\<close> of HOL is never what a result below rests on. The infinities,
  \<open>NaN\<close> and overflow are modelled by the type \<open>jsnum\<close>; the decay step and
  \<open>getNormalizedVelocity\<close>, whose behaviour on such values matters below, are
  given over it (\<open>decay_js\<close>, \<open>getNormalizedVelocity_js\<close>).
\<close>

subsection \<open>Values of the host language\<close>

text \<open>An element of the document; \<open>hasStyle\<close> says whether its \<open>style\<close> is there.\<close>

datatype element = Element (elemId: nat) (hasStyle: bool)

text \<open>
  The values an option field or an instance field can hold. \<open>Undefined\<close> also stands
  for \<open>null\<close>: the source only tests either for truthiness.
\<close>

datatype jsval = Undefined | Num real | Str string | Bool bool | Elem element

text \<open>Truthiness, as \<open>||\<close>, \<open>!\<close> and \<open>if\<close> use it.\<close>

fun truthy :: "jsval \<Rightarrow> bool" where
  "truthy Undefined = False"
| "truthy (Num r) = (r \<noteq> 0)"
| "truthy (Str s) = (s \<noteq> [])"
| "truthy (Bool b) = b"
| "truthy (Elem e) = True"

text \<open>\<open>a || b\<close> on values: \<open>a\<close> when it is truthy, else \<open>b\<close>.\<close>

definition js_or :: "jsval \<Rightarrow> jsval \<Rightarrow> jsval" where
  "js_or a b = (if truthy a then a else b)"

text \<open>\<open>typeof v === "number"\<close>.\<close>

fun isNumber :: "jsval \<Rightarrow> bool" where
  "isNumber (Num r) = True"
| "isNumber v = False"

text \<open>The number held by a value that passed \<open>isNumber\<close>.\<close>

fun numberOf :: "jsval \<Rightarrow> real" where
  "numberOf (Num r) = r"
| "numberOf v = 0"

text \<open>
  An options object: the keys it has, with their values. \<open>"k" in o\<close> is
  \<open>k \<in> dom o\<close>; \<open>o.k\<close> is \<open>Undefined\<close> for a key that is not there.
\<close>

type_synonym options = "string \<rightharpoonup> jsval"

definition field :: "options \<Rightarrow> string \<Rightarrow> jsval" where
  "field opts k = (case opts k of None \<Rightarrow> Undefined | Some v \<Rightarrow> v)"

definition hasKey :: "string \<Rightarrow> options \<Rightarrow> bool" where
  "hasKey k opts = (opts k \<noteq> None)"

subsection \<open>The tracker and the part of the host it touches\<close>

text \<open>One call of \<open>_writeCSS\<close> that reaches the target: the four properties it sets
  (the numbers handed to \<open>toFixed\<close>; the decimal formatting is not modelled).\<close>

record css =
  scroll_velocity :: real
  scroll_velocity_abs :: real
  scroll_velocity_pow :: real
  scroll_velocity_raw :: real

text \<open>
  The instance fields of the class (the leading underscore of the private ones dropped),
  then the host state the methods act on: whether the scroll listener is subscribed,
  the animation frames requested and not yet fired or cancelled, the last handle the
  host gave out (handles are positive and fresh), and the writes made to the target's
  style, oldest first.
\<close>

record tracker =
  target :: jsval
  sampleMode :: jsval
  responsiveness :: real
  friction :: real
  attraction :: real
  threshold :: real
  maxVelocity :: real
  writeCSSVariables :: bool
  respectReducedMotion :: bool
  isRunning :: bool
  rafId :: nat
  velocity :: real
  lastScrollY :: real
  lastTime :: real
  listening :: bool
  frames :: "nat set"
  lastHandle :: nat
  styleWrites :: "css list"

text \<open>
  What the handlers read from \<open>window\<close> and \<open>performance\<close> when they run:
  \<open>scrollY\<close> and \<open>pageYOffset\<close> (\<open>None\<close> when undefined), \<open>performance.now()\<close>,
  whether \<open>window.matchMedia\<close> exists, and whether the query
  \<open>(prefers-reduced-motion: reduce)\<close> matches.
\<close>

record window =
  scrollY :: "real option"
  pageYOffset :: "real option"
  now :: real
  hasMatchMedia :: bool
  prefersReducedMotion :: bool

subsection \<open>Helpers\<close>

text \<open>\<open>clamp(value, min, max)\<close>: \<open>Math.max(min, Math.min(max, value))\<close>.\<close>

definition clamp :: "real \<Rightarrow> real \<Rightarrow> real \<Rightarrow> real" where
  "clamp v lo hi = max lo (min hi v)"

text \<open>\<open>a || b\<close> on a number \<open>a\<close>: zero is the falsy number.\<close>

definition num_or :: "real \<Rightarrow> real \<Rightarrow> real" where
  "num_or a b = (if a \<noteq> 0 then a else b)"

text \<open>\<open>window.scrollY || window.pageYOffset || 0\<close>.\<close>

definition readScrollY :: "window \<Rightarrow> real" where
  "readScrollY w =
     (case scrollY w of
        Some y \<Rightarrow> if y \<noteq> 0 then y
                  else (case pageYOffset w of Some p \<Rightarrow> num_or p 0 | None \<Rightarrow> 0)
      | None \<Rightarrow> (case pageYOffset w of Some p \<Rightarrow> num_or p 0 | None \<Rightarrow> 0))"

text \<open>The reduced-motion test both handlers make.\<close>

definition reducedMotion :: "window \<Rightarrow> tracker \<Rightarrow> bool" where
  "reducedMotion w s \<longleftrightarrow>
     respectReducedMotion s \<and> hasMatchMedia w \<and> prefersReducedMotion w"

text \<open>\<open>requestAnimationFrame(this._boundOnRaf)\<close>, its result stored in \<open>_rafId\<close>.\<close>

definition requestFrame :: "tracker \<Rightarrow> tracker" where
  "requestFrame s =
     s\<lparr>rafId := Suc (lastHandle s),
       frames := insert (Suc (lastHandle s)) (frames s),
       lastHandle := Suc (lastHandle s)\<rparr>"

text \<open>\<open>if (!this._rafId) this._rafId = requestAnimationFrame(this._boundOnRaf)\<close>.\<close>

definition ensureFrame :: "tracker \<Rightarrow> tracker" where
  "ensureFrame s = (if rafId s = 0 then requestFrame s else s)"

text \<open>\<open>!this.target || !this.target.style\<close> negated: the target can be written to.\<close>

fun writable :: "jsval \<Rightarrow> bool" where
  "writable (Elem e) = hasStyle e"
| "writable v = False"

text \<open>\<open>_writeCSS(normalized)\<close>.\<close>

definition writeCSS :: "real \<Rightarrow> tracker \<Rightarrow> tracker" where
  "writeCSS normalized s =
     (if \<not> writeCSSVariables s then s
      else if \<not> writable (target s) then s
      else
        let a = \<bar>normalized\<bar>;
            p = min 1 ((a powr 0.7) * 1.35)
        in s\<lparr>styleWrites := styleWrites s @
               [\<lparr>scroll_velocity = normalized, scroll_velocity_abs = a,
                 scroll_velocity_pow = p, scroll_velocity_raw = velocity s\<rparr>]\<rparr>)"

subsection \<open>Numbers with infinities and NaN\<close>

text \<open>
  A number of the host language: a finite value, an infinity or \<open>NaN\<close>. Finite
  values are reals: rounding and the sign of zero are not modelled, overflow is.
\<close>

datatype jsnum = Fin real | PosInf | NegInf | NaN

text \<open>The magnitude from which a result rounds to an infinity: halfway between the
  largest double \<open>2^1024 - 2^971\<close> and \<open>2^1024\<close>.\<close>

definition overflow_bound :: real where
  "overflow_bound = 2 ^ 1024 - 2 ^ 970"

text \<open>The result of an operation on finite operands, from its exact value.\<close>

definition ovf :: "real \<Rightarrow> jsnum" where
  "ovf r = (if overflow_bound \<le> r then PosInf
            else if r \<le> - overflow_bound then NegInf else Fin r)"

text \<open>\<open>a <= b\<close> and \<open>a < b\<close>: false when either side is \<open>NaN\<close>.\<close>

fun le_js :: "jsnum \<Rightarrow> jsnum \<Rightarrow> bool" where
  "le_js NaN b = False"
| "le_js a NaN = False"
| "le_js NegInf b = True"
| "le_js a PosInf = True"
| "le_js PosInf b = False"
| "le_js (Fin a) NegInf = False"
| "le_js (Fin a) (Fin b) = (a \<le> b)"

fun lt_js :: "jsnum \<Rightarrow> jsnum \<Rightarrow> bool" where
  "lt_js NaN b = False"
| "lt_js a NaN = False"
| "lt_js PosInf b = False"
| "lt_js a NegInf = False"
| "lt_js NegInf b = True"
| "lt_js (Fin a) PosInf = True"
| "lt_js (Fin a) (Fin b) = (a < b)"

text \<open>\<open>Math.min(a, b)\<close> and \<open>Math.max(a, b)\<close>: \<open>NaN\<close> when either
  argument is.\<close>

definition min_js :: "jsnum \<Rightarrow> jsnum \<Rightarrow> jsnum" where
  "min_js a b = (if a = NaN \<or> b = NaN then NaN else if le_js a b then a else b)"

definition max_js :: "jsnum \<Rightarrow> jsnum \<Rightarrow> jsnum" where
  "max_js a b = (if a = NaN \<or> b = NaN then NaN else if le_js a b then b else a)"

text \<open>\<open>Math.abs(a)\<close>.\<close>

fun abs_js :: "jsnum \<Rightarrow> jsnum" where
  "abs_js NaN = NaN"
| "abs_js PosInf = PosInf"
| "abs_js NegInf = PosInf"
| "abs_js (Fin r) = Fin \<bar>r\<bar>"

text \<open>Whether a number is one of the infinities.\<close>

fun infinite_js :: "jsnum \<Rightarrow> bool" where
  "infinite_js PosInf = True"
| "infinite_js NegInf = True"
| "infinite_js a = False"

text \<open>\<open>a * b\<close>: an infinity times zero is \<open>NaN\<close>.\<close>

fun mul_js :: "jsnum \<Rightarrow> jsnum \<Rightarrow> jsnum" where
  "mul_js NaN b = NaN"
| "mul_js a NaN = NaN"
| "mul_js (Fin a) (Fin b) = ovf (a * b)"
| "mul_js (Fin a) PosInf = (if a = 0 then NaN else if 0 < a then PosInf else NegInf)"
| "mul_js (Fin a) NegInf = (if a = 0 then NaN else if 0 < a then NegInf else PosInf)"
| "mul_js PosInf (Fin b) = (if b = 0 then NaN else if 0 < b then PosInf else NegInf)"
| "mul_js NegInf (Fin b) = (if b = 0 then NaN else if 0 < b then NegInf else PosInf)"
| "mul_js PosInf PosInf = PosInf"
| "mul_js PosInf NegInf = NegInf"
| "mul_js NegInf PosInf = NegInf"
| "mul_js NegInf NegInf = PosInf"

text \<open>\<open>a - b\<close>: an infinity minus itself is \<open>NaN\<close>.\<close>

fun sub_js :: "jsnum \<Rightarrow> jsnum \<Rightarrow> jsnum" where
  "sub_js NaN b = NaN"
| "sub_js a NaN = NaN"
| "sub_js (Fin a) (Fin b) = ovf (a - b)"
| "sub_js (Fin a) PosInf = NegInf"
| "sub_js (Fin a) NegInf = PosInf"
| "sub_js PosInf (Fin b) = PosInf"
| "sub_js NegInf (Fin b) = NegInf"
| "sub_js PosInf PosInf = NaN"
| "sub_js PosInf NegInf = PosInf"
| "sub_js NegInf PosInf = NegInf"
| "sub_js NegInf NegInf = NaN"

text \<open>\<open>a / b\<close>: zero by zero and infinity by infinity are \<open>NaN\<close>; a non-zero
  finite number by zero is an infinity (zero taken as \<open>+0\<close>).\<close>

fun div_js :: "jsnum \<Rightarrow> jsnum \<Rightarrow> jsnum" where
  "div_js NaN b = NaN"
| "div_js a NaN = NaN"
| "div_js (Fin a) (Fin b) =
     (if b = 0 then (if a = 0 then NaN else if 0 < a then PosInf else NegInf)
      else ovf (a / b))"
| "div_js (Fin a) PosInf = Fin 0"
| "div_js (Fin a) NegInf = Fin 0"
| "div_js PosInf (Fin b) = (if 0 \<le> b then PosInf else NegInf)"
| "div_js NegInf (Fin b) = (if 0 \<le> b then NegInf else PosInf)"
| "div_js PosInf PosInf = NaN"
| "div_js PosInf NegInf = NaN"
| "div_js NegInf PosInf = NaN"
| "div_js NegInf NegInf = NaN"

text \<open>\<open>clamp(value, min, max)\<close> on these numbers.\<close>

definition clamp_js :: "jsnum \<Rightarrow> jsnum \<Rightarrow> jsnum \<Rightarrow> jsnum" where
  "clamp_js v lo hi = max_js lo (min_js hi v)"

text \<open>The numeric fields that the decay step and \<open>getNormalizedVelocity()\<close> read
  or write, holding any number of the host language.\<close>

record jsfields =
  n_velocity :: jsnum
  n_maxVelocity :: jsnum
  n_friction :: jsnum
  n_attraction :: jsnum
  n_threshold :: jsnum

text \<open>These fields of a tracker.\<close>

definition numbers_of :: "tracker \<Rightarrow> jsfields" where
  "numbers_of s =
     \<lparr>n_velocity = Fin (velocity s), n_maxVelocity = Fin (maxVelocity s),
      n_friction = Fin (friction s), n_attraction = Fin (attraction s),
      n_threshold = Fin (threshold s)\<rparr>"

text \<open>\<open>getNormalizedVelocity()\<close> on these fields: the value returned and the fields
  after.\<close>

definition getNormalizedVelocity_js :: "jsfields \<Rightarrow> jsnum \<times> jsfields" where
  "getNormalizedVelocity_js n =
     (if le_js (n_maxVelocity n) (Fin 0) then (Fin 0, n)
      else (clamp_js (div_js (n_velocity n) (n_maxVelocity n)) (Fin (- 1)) (Fin 1), n))"

text \<open>The value of a finite number (0 for the others: the method below is applied
  to finite fields only, where its result is finite).\<close>

fun finite_value :: "jsnum \<Rightarrow> real" where
  "finite_value (Fin r) = r"
| "finite_value a = 0"

subsection \<open>Public methods\<close>

text \<open>\<open>getVelocity()\<close>.\<close>

definition getVelocity :: "tracker \<Rightarrow> real" where
  "getVelocity s = velocity s"

text \<open>\<open>getNormalizedVelocity()\<close> on a tracker: the method above on its numeric
  fields, and the tracker after. On finite fields the value is finite
  (\<open>normalized_js_Fin\<close>).\<close>

definition getNormalizedVelocity :: "tracker \<Rightarrow> real \<times> tracker" where
  "getNormalizedVelocity s =
     (finite_value (fst (getNormalizedVelocity_js (numbers_of s))), s)"

text \<open>
  The constructor, given \<open>document.body\<close> and the options object. The host part
  starts with no listener, no frame requested and nothing written.
\<close>

definition constructor :: "jsval \<Rightarrow> options \<Rightarrow> tracker" where
  "constructor body opts =
     \<lparr>target = js_or (field opts ''target'') body,
      sampleMode = js_or (field opts ''sampleMode'') (Str ''hybrid''),
      responsiveness =
        (if isNumber (field opts ''responsiveness'')
         then numberOf (field opts ''responsiveness'') else 0.35),
      friction =
        (if isNumber (field opts ''friction'') then numberOf (field opts ''friction'') else 0.92),
      attraction =
        (if isNumber (field opts ''attraction'')
         then numberOf (field opts ''attraction'') else 0.04),
      threshold =
        (if isNumber (field opts ''threshold'')
         then numberOf (field opts ''threshold'') else 0.02),
      maxVelocity =
        (if isNumber (field opts ''maxVelocity'')
         then numberOf (field opts ''maxVelocity'') else 200),
      writeCSSVariables = (field opts ''writeCSSVariables'' \<noteq> Bool False),
      respectReducedMotion = (field opts ''respectReducedMotion'' \<noteq> Bool False),
      isRunning = False,
      rafId = 0,
      velocity = 0,
      lastScrollY = 0,
      lastTime = 0,
      listening = False,
      frames = {},
      lastHandle = 0,
      styleWrites = []\<rparr>"

text \<open>\<open>start()\<close>.\<close>

definition start :: "window \<Rightarrow> tracker \<Rightarrow> tracker" where
  "start w s =
     (if isRunning s then s
      else requestFrame
             (s\<lparr>isRunning := True, lastScrollY := readScrollY w, lastTime := now w,
                listening := True\<rparr>))"

text \<open>\<open>stop()\<close>. \<open>cancelAnimationFrame(id)\<close> takes the handle out of the
  requested frames.\<close>

definition stop :: "tracker \<Rightarrow> tracker" where
  "stop s =
     (if \<not> isRunning s then s
      else
        let s1 = s\<lparr>isRunning := False, listening := False\<rparr>;
            s2 = (if rafId s1 \<noteq> 0 then s1\<lparr>frames := frames s1 - {rafId s1}\<rparr> else s1);
            s3 = s2\<lparr>rafId := 0, velocity := 0\<rparr>
        in writeCSS 0 s3)"

text \<open>\<open>setOptions(nextOptions)\<close>: one definition per \<open>if\<close> of the source, applied
  in the source's order.\<close>

definition setTarget :: "options \<Rightarrow> tracker \<Rightarrow> tracker" where
  "setTarget n s =
     (if hasKey ''target'' n \<and> truthy (field n ''target'')
      then s\<lparr>target := field n ''target''\<rparr> else s)"

definition setSampleMode :: "options \<Rightarrow> tracker \<Rightarrow> tracker" where
  "setSampleMode n s =
     (if hasKey ''sampleMode'' n
      then s\<lparr>sampleMode := js_or (field n ''sampleMode'') (Str ''hybrid'')\<rparr> else s)"

definition setResponsiveness :: "options \<Rightarrow> tracker \<Rightarrow> tracker" where
  "setResponsiveness n s =
     (if hasKey ''responsiveness'' n \<and> isNumber (field n ''responsiveness'')
      then s\<lparr>responsiveness := numberOf (field n ''responsiveness'')\<rparr> else s)"

definition setDampening :: "options \<Rightarrow> tracker \<Rightarrow> tracker" where
  "setDampening n s =
     (if hasKey ''dampening'' n \<and> isNumber (field n ''dampening'')
      then s\<lparr>responsiveness := numberOf (field n ''dampening'')\<rparr> else s)"

definition setFriction :: "options \<Rightarrow> tracker \<Rightarrow> tracker" where
  "setFriction n s =
     (if hasKey ''friction'' n \<and> isNumber (field n ''friction'')
      then s\<lparr>friction := numberOf (field n ''friction'')\<rparr> else s)"

definition setAttraction :: "options \<Rightarrow> tracker \<Rightarrow> tracker" where
  "setAttraction n s =
     (if hasKey ''attraction'' n \<and> isNumber (field n ''attraction'')
      then s\<lparr>attraction := numberOf (field n ''attraction'')\<rparr> else s)"

definition setThreshold :: "options \<Rightarrow> tracker \<Rightarrow> tracker" where
  "setThreshold n s =
     (if hasKey ''threshold'' n \<and> isNumber (field n ''threshold'')
      then s\<lparr>threshold := numberOf (field n ''threshold'')\<rparr> else s)"

definition setMaxVelocity :: "options \<Rightarrow> tracker \<Rightarrow> tracker" where
  "setMaxVelocity n s =
     (if hasKey ''maxVelocity'' n \<and> isNumber (field n ''maxVelocity'')
      then s\<lparr>maxVelocity := numberOf (field n ''maxVelocity'')\<rparr> else s)"

definition setWriteCSSVariables :: "options \<Rightarrow> tracker \<Rightarrow> tracker" where
  "setWriteCSSVariables n s =
     (if hasKey ''writeCSSVariables'' n
      then s\<lparr>writeCSSVariables := truthy (field n ''writeCSSVariables'')\<rparr> else s)"

definition setRespectReducedMotion :: "options \<Rightarrow> tracker \<Rightarrow> tracker" where
  "setRespectReducedMotion n s =
     (if hasKey ''respectReducedMotion'' n
      then s\<lparr>respectReducedMotion := truthy (field n ''respectReducedMotion'')\<rparr> else s)"

definition setOptions :: "options \<Rightarrow> tracker \<Rightarrow> tracker" where
  "setOptions n s =
     setRespectReducedMotion n
       (setWriteCSSVariables n
          (setMaxVelocity n
             (setThreshold n
                (setAttraction n
                   (setFriction n
                      (setDampening n
                         (setResponsiveness n
                            (setSampleMode n
                               (setTarget n s)))))))))"

subsection \<open>The scroll handler\<close>

text \<open>\<open>now - this._lastTime || 16.7\<close>: the elapsed time in ms; \<open>||\<close> replaces a
  zero, and only a zero.\<close>

definition deltaT_of :: "real \<Rightarrow> real \<Rightarrow> real" where
  "deltaT_of t lastT = num_or (t - lastT) 16.7"

text \<open>The sampling modes: the value of \<open>instantaneous\<close> for the mode, \<open>deltaY\<close> and
  \<open>deltaT\<close>. \<open>Math.log\<close> is the natural logarithm.\<close>

definition instantaneous :: "jsval \<Rightarrow> real \<Rightarrow> real \<Rightarrow> real" where
  "instantaneous mode deltaY deltaT =
     (if mode = Str ''time'' then
        (if deltaT > 0 then deltaY / deltaT else 0) * 12
      else if mode = Str ''hybrid'' then
        (let cappedDeltaT = max deltaT 4;
             filteredDeltaY = (if \<bar>deltaY\<bar> < 0.3 then 0 else deltaY)
         in if cappedDeltaT < 10 then
              filteredDeltaY * (0.85 + 0.15 * (cappedDeltaT / 10))
            else if cappedDeltaT > 25 then
              (let adaptiveScale = 6 + ln cappedDeltaT * 2
               in (filteredDeltaY / cappedDeltaT) * adaptiveScale)
            else
              (let deltaRatio = (25 - cappedDeltaT) / 15;
                   deltaComponent = filteredDeltaY * 0.7;
                   timeComponent = (filteredDeltaY / cappedDeltaT) * 8
               in deltaRatio * deltaComponent + (1 - deltaRatio) * timeComponent))
      else deltaY)"

text \<open>\<open>_onScroll()\<close>.\<close>

definition onScroll :: "window \<Rightarrow> tracker \<Rightarrow> tracker" where
  "onScroll w s =
     (if reducedMotion w s then ensureFrame (writeCSS 0 (s\<lparr>velocity := 0\<rparr>))
      else
        let y = readScrollY w;
            t = now w;
            deltaY = y - lastScrollY s;
            deltaT = deltaT_of t (lastTime s);
            s1 = s\<lparr>lastScrollY := y, lastTime := t\<rparr>;
            inst = instantaneous (sampleMode s1) deltaY deltaT;
            targetVelocity = velocity s1 + inst;
            s2 = s1\<lparr>velocity := velocity s1 + (targetVelocity - velocity s1) * responsiveness s1\<rparr>;
            s3 = s2\<lparr>velocity := clamp (velocity s2) (- maxVelocity s2) (maxVelocity s2)\<rparr>
        in ensureFrame s3)"

text \<open>A series of scroll events, each with what the handler reads when it runs.\<close>

fun onScrolls :: "window list \<Rightarrow> tracker \<Rightarrow> tracker" where
  "onScrolls [] s = s"
| "onScrolls (w # ws) s = onScrolls ws (onScroll w s)"

subsection \<open>The animation-frame handler\<close>

text \<open>The decay step of \<open>_onRaf\<close>: friction, attraction, snap to zero. On reals
  no product overflows; \<open>decay_js\<close> below is the same step with overflow, and the two
  agree where no product overflows (\<open>decay_js_numbers_of\<close>).\<close>

definition decay :: "tracker \<Rightarrow> tracker" where
  "decay s =
     (let s1 = s\<lparr>velocity := velocity s * friction s\<rparr>;
          s2 = s1\<lparr>velocity := velocity s1 * (1 - attraction s1)\<rparr>
      in if \<bar>velocity s2\<bar> < threshold s2 then s2\<lparr>velocity := 0\<rparr> else s2)"

text \<open>The decay step on fields that hold any number of the host language.\<close>

definition decay_js :: "jsfields \<Rightarrow> jsfields" where
  "decay_js n =
     (let n1 = n\<lparr>n_velocity := mul_js (n_velocity n) (n_friction n)\<rparr>;
          n2 = n1\<lparr>n_velocity := mul_js (n_velocity n1) (sub_js (Fin 1) (n_attraction n1))\<rparr>
      in if lt_js (abs_js (n_velocity n2)) (n_threshold n2) then n2\<lparr>n_velocity := Fin 0\<rparr>
         else n2)"

text \<open>\<open>_onRaf()\<close>.\<close>

definition onRaf :: "window \<Rightarrow> tracker \<Rightarrow> tracker" where
  "onRaf w s =
     (let s0 = s\<lparr>rafId := 0\<rparr>;
          s1 = (if \<not> reducedMotion w s0 then decay s0 else s0);
          s2 = (case getNormalizedVelocity s1 of (n, s') \<Rightarrow> writeCSS n s')
      in if isRunning s2 \<and> \<bar>velocity s2\<bar> > 0 then requestFrame s2 else s2)"

text \<open>The handler run once per entry of a list of readings.\<close>

fun onRafs :: "window list \<Rightarrow> tracker \<Rightarrow> tracker" where
  "onRafs [] s = s"
| "onRafs (w # ws) s = onRafs ws (onRaf w s)"

text \<open>The host fires the requested frame \<open>k\<close>: it is no longer pending, and the
  callback runs. A handle that is not pending fires nothing.\<close>

definition fire :: "window \<Rightarrow> nat \<Rightarrow> tracker \<Rightarrow> tracker" where
  "fire w k s = (if k \<in> frames s then onRaf w (s\<lparr>frames := frames s - {k}\<rparr>) else s)"

text \<open>One tick: the host fires the frame the tracker holds in \<open>_rafId\<close>.\<close>

definition tick :: "window \<Rightarrow> tracker \<Rightarrow> tracker" where
  "tick w s = fire w (rafId s) s"

subsection \<open>The divisions of the sampling modes, checked\<close>

text \<open>
  In the source a division by zero gives an infinity or \<open>NaN\<close>, and so does
  \<open>Math.log\<close> outside the positive numbers; neither is a \<^typ>\<open>real\<close>. Here both
  operations return \<open>None\<close> in those cases, and \<open>instantaneous_checked\<close> is the
  sampling block of \<open>_onScroll\<close> once more, over these.
\<close>

definition js_div :: "real \<Rightarrow> real \<Rightarrow> real option" where
  "js_div a b = (if b = 0 then None else Some (a / b))"

definition js_log :: "real \<Rightarrow> real option" where
  "js_log a = (if a > 0 then Some (ln a) else None)"

definition instantaneous_checked :: "jsval \<Rightarrow> real \<Rightarrow> real \<Rightarrow> real option" where
  "instantaneous_checked mode deltaY deltaT =
     (if mode = Str ''time'' then
        map_option (\<lambda>i. i * 12) (if deltaT > 0 then js_div deltaY deltaT else Some 0)
      else if mode = Str ''hybrid'' then
        (let cappedDeltaT = max deltaT 4;
             filteredDeltaY = (if \<bar>deltaY\<bar> < 0.3 then 0 else deltaY)
         in if cappedDeltaT < 10 then
              map_option (\<lambda>q. filteredDeltaY * (0.85 + 0.15 * q)) (js_div cappedDeltaT 10)
            else if cappedDeltaT > 25 then
              Option.bind (js_log cappedDeltaT) (\<lambda>l.
                map_option (\<lambda>q. q * (6 + l * 2)) (js_div filteredDeltaY cappedDeltaT))
            else
              Option.bind (js_div (25 - cappedDeltaT) 15) (\<lambda>deltaRatio.
                map_option
                  (\<lambda>q. deltaRatio * (filteredDeltaY * 0.7) + (1 - deltaRatio) * (q * 8))
                  (js_div filteredDeltaY cappedDeltaT)))
      else Some deltaY)"

subsection \<open>Reachable states\<close>

text \<open>
  The states a tracker can be in: constructed, then driven by calls of the public
  methods, by scroll events while the listener is subscribed, and by the host firing a
  frame that is pending.
\<close>

inductive reachable :: "tracker \<Rightarrow> bool" where
  r_construct: "reachable (constructor body opts)"
| r_start: "reachable s \<Longrightarrow> reachable (start w s)"
| r_stop: "reachable s \<Longrightarrow> reachable (stop s)"
| r_setOptions: "reachable s \<Longrightarrow> reachable (setOptions n s)"
| r_onScroll: "reachable s \<Longrightarrow> listening s \<Longrightarrow> reachable (onScroll w s)"
| r_fire: "reachable s \<Longrightarrow> k \<in> frames s \<Longrightarrow> reachable (fire w k s)"

subsection \<open>Sample inputs\<close>

text \<open>A body element with a style, readings of the window at position \<open>y\<close> and time
  \<open>t\<close> (without and with the reduced-motion preference), a tracker constructed with
  the defaults, and the same tracker started at position 0 and time 0.\<close>

definition body0 :: jsval where
  "body0 = Elem (Element 0 True)"

definition win :: "real \<Rightarrow> real \<Rightarrow> window" where
  "win y t = \<lparr>scrollY = Some y, pageYOffset = Some y, now = t,
              hasMatchMedia = True, prefersReducedMotion = False\<rparr>"

definition win_reduced :: "real \<Rightarrow> real \<Rightarrow> window" where
  "win_reduced y t = \<lparr>scrollY = Some y, pageYOffset = Some y, now = t,
                      hasMatchMedia = True, prefersReducedMotion = True\<rparr>"

definition fresh :: tracker where
  "fresh = constructor body0 Map.empty"

definition started :: tracker where
  "started = start (win 0 0) fresh"

text \<open>A tracker in delta mode with responsiveness 1, started at position 0, after one
  scroll event at position 1: its velocity is 1, with the default friction, attraction
  and threshold.\<close>

definition moving :: tracker where
  "moving =
     onScroll (win 1 10)
       (start (win 0 0)
          (constructor body0 [''sampleMode'' \<mapsto> Str ''delta'', ''responsiveness'' \<mapsto> Num 1]))"

text \<open>A tracker with threshold 5 (the other options at their defaults), started at
  position 0, after one scroll event at position 10 and time 5: its velocity is 3.2375.
  Then the same after one tick, which brings the velocity below the threshold.\<close>

definition nudged :: tracker where
  "nudged =
     onScroll (win 10 5) (start (win 0 0) (constructor body0 [''threshold'' \<mapsto> Num 5]))"

definition settled :: tracker where
  "settled = tick (win 10 21) nudged"

text \<open>Numeric fields as \<open>setOptions({friction: 1e308, attraction: 1})\<close> leaves
  them on a tracker with velocity 100.\<close>

definition overflowing :: jsfields where
  "overflowing =
     \<lparr>n_velocity = Fin 100, n_maxVelocity = Fin 200, n_friction = Fin (10 ^ 308),
      n_attraction = Fin 1, n_threshold = Fin 0.02\<rparr>"

section \<open>Properties\<close>

subsection \<open>Finite fields under the operations on all numbers\<close>

lemma overflow_bound_gt: "1 < overflow_bound"
  by (simp add: overflow_bound_def)

lemma clamp_js_Fin: "clamp_js (Fin x) (Fin (- 1)) (Fin 1) = Fin (clamp x (- 1) 1)"
  by (simp add: clamp_js_def min_js_def max_js_def clamp_def min_def max_def)

lemma normalized_js_Fin:
  "fst (getNormalizedVelocity_js (numbers_of s)) =
     Fin (if maxVelocity s \<le> 0 then 0 else clamp (velocity s / maxVelocity s) (- 1) 1)"
proof (cases "maxVelocity s \<le> 0")
  case True
  then show ?thesis by (simp add: getNormalizedVelocity_js_def numbers_of_def)
next
  case False
  consider (hi) "overflow_bound \<le> velocity s / maxVelocity s"
    | (lo) "velocity s / maxVelocity s \<le> - overflow_bound"
    | (mid) "\<not> overflow_bound \<le> velocity s / maxVelocity s"
        "\<not> velocity s / maxVelocity s \<le> - overflow_bound"
    by blast
  then show ?thesis
  proof cases
    case hi
    then have "clamp (velocity s / maxVelocity s) (- 1) 1 = 1"
      using overflow_bound_gt by (simp add: clamp_def)
    with hi False show ?thesis
      by (simp add: getNormalizedVelocity_js_def numbers_of_def ovf_def clamp_js_def
          min_js_def max_js_def)
  next
    case lo
    then have "clamp (velocity s / maxVelocity s) (- 1) 1 = - 1"
      using overflow_bound_gt by (simp add: clamp_def)
    with lo False overflow_bound_gt show ?thesis
      by (simp add: getNormalizedVelocity_js_def numbers_of_def ovf_def clamp_js_def
          min_js_def max_js_def)
  next
    case mid
    with False show ?thesis
      by (simp add: getNormalizedVelocity_js_def numbers_of_def ovf_def clamp_js_Fin)
  qed
qed

lemma getNormalizedVelocity_real:
  "getNormalizedVelocity s =
     (if maxVelocity s \<le> 0 then (0, s)
      else (clamp (velocity s / maxVelocity s) (- 1) 1, s))"
  by (simp add: getNormalizedVelocity_def normalized_js_Fin)

lemma normalized_js_nan_iff:
  "fst (getNormalizedVelocity_js n) = NaN \<longleftrightarrow>
     n_maxVelocity n = NaN
     \<or> (\<not> le_js (n_maxVelocity n) (Fin 0)
         \<and> (n_velocity n = NaN
             \<or> (infinite_js (n_velocity n) \<and> infinite_js (n_maxVelocity n))))"
  by (cases "n_velocity n"; cases "n_maxVelocity n")
    (auto simp: getNormalizedVelocity_js_def clamp_js_def min_js_def max_js_def ovf_def
      split: if_splits)

lemma normalized_js_in_range:
  "fst (getNormalizedVelocity_js n) \<noteq> NaN \<Longrightarrow>
     le_js (Fin (- 1)) (fst (getNormalizedVelocity_js n))
     \<and> le_js (fst (getNormalizedVelocity_js n)) (Fin 1)"
  by (cases "n_velocity n"; cases "n_maxVelocity n")
    (auto simp: getNormalizedVelocity_js_def clamp_js_def min_js_def max_js_def ovf_def
      split: if_splits)

lemma snap_js_real:
  assumes "lt_js (abs_js (mul_js (mul_js (Fin v) (Fin f)) (sub_js (Fin 1) (Fin a)))) (Fin th)"
  shows "\<bar>v * f * (1 - a)\<bar> < th"
  using assms by (auto simp: ovf_def split: if_splits)

lemma decay_js_numbers_of:
  assumes "\<bar>velocity s * friction s\<bar> < overflow_bound"
    and "\<bar>1 - attraction s\<bar> < overflow_bound"
    and "\<bar>velocity s * friction s * (1 - attraction s)\<bar> < overflow_bound"
  shows "decay_js (numbers_of s) = numbers_of (decay s)"
  using assms
  by (auto simp: decay_js_def decay_def numbers_of_def ovf_def Let_def)

lemma decay_js_snap:
  assumes "lt_js (abs_js (mul_js (mul_js (Fin (velocity s)) (Fin (friction s)))
              (sub_js (Fin 1) (Fin (attraction s))))) (Fin (threshold s))"
  shows "n_velocity (decay_js (numbers_of s)) = Fin 0"
  using assms by (simp add: decay_js_def numbers_of_def Let_def)

subsection \<open>Shared facts\<close>

lemma clamp_abs_le: "0 \<le> m \<Longrightarrow> \<bar>clamp v (- m) m\<bar> \<le> m"
  unfolding clamp_def by linarith

lemma clamp_unit: "- 1 \<le> clamp v (- 1) 1 \<and> clamp v (- 1) 1 \<le> 1"
  by (simp add: clamp_def max_def min_def)


lemma velocity_ensureFrame: "velocity (ensureFrame s) = velocity s"
  by (simp add: ensureFrame_def requestFrame_def)

lemma velocity_writeCSS: "velocity (writeCSS n s) = velocity s"
  by (simp add: writeCSS_def Let_def)

lemma maxVelocity_ensureFrame: "maxVelocity (ensureFrame s) = maxVelocity s"
  by (simp add: ensureFrame_def requestFrame_def)

lemma maxVelocity_writeCSS: "maxVelocity (writeCSS n s) = maxVelocity s"
  by (simp add: writeCSS_def Let_def)

lemma maxVelocity_onScroll: "maxVelocity (onScroll w s) = maxVelocity s"
  by (simp add: onScroll_def Let_def maxVelocity_ensureFrame maxVelocity_writeCSS)

lemma velocity_onScroll_bound:
  "0 \<le> maxVelocity s \<Longrightarrow> \<bar>velocity (onScroll w s)\<bar> \<le> maxVelocity s"
  by (simp add: onScroll_def Let_def velocity_ensureFrame velocity_writeCSS clamp_abs_le)

lemma maxVelocity_onScrolls: "maxVelocity (onScrolls ws s) = maxVelocity s"
  by (induction ws arbitrary: s) (simp_all add: maxVelocity_onScroll)

lemma fresh_simps:
  "maxVelocity fresh = 200" "responsiveness fresh = 0.35" "friction fresh = 0.92"
  "attraction fresh = 0.04" "threshold fresh = 0.02" "velocity fresh = 0"
  "sampleMode fresh = Str ''hybrid''" "target fresh = body0"
  "writeCSSVariables fresh" "respectReducedMotion fresh" "\<not> isRunning fresh"
  "rafId fresh = 0" "frames fresh = {}" "lastHandle fresh = 0" "styleWrites fresh = []"
  "\<not> listening fresh" "lastScrollY fresh = 0" "lastTime fresh = 0"
  by (simp_all add: fresh_def constructor_def field_def js_or_def)

lemma started_simps:
  "maxVelocity started = 200" "responsiveness started = 0.35" "friction started = 0.92"
  "attraction started = 0.04" "threshold started = 0.02" "velocity started = 0"
  "sampleMode started = Str ''hybrid''" "target started = body0"
  "writeCSSVariables started" "respectReducedMotion started" "isRunning started"
  "rafId started = 1" "frames started = {1}" "lastHandle started = 1"
  "styleWrites started = []" "listening started" "lastScrollY started = 0"
  "lastTime started = 0"
  by (simp_all add: started_def start_def requestFrame_def fresh_simps readScrollY_def
      num_or_def win_def)

subsection \<open>Frames and listener in reachable states\<close>

lemma setOptions_frame_fields:
  "frames (setOptions n s) = frames s" "rafId (setOptions n s) = rafId s"
  "listening (setOptions n s) = listening s" "isRunning (setOptions n s) = isRunning s"
  "velocity (setOptions n s) = velocity s"
  by (simp_all add: setOptions_def setTarget_def setSampleMode_def setResponsiveness_def
      setDampening_def setFriction_def setAttraction_def setThreshold_def
      setMaxVelocity_def setWriteCSSVariables_def setRespectReducedMotion_def)

lemma writeCSS_frame_fields:
  "frames (writeCSS x s) = frames s" "rafId (writeCSS x s) = rafId s"
  "listening (writeCSS x s) = listening s" "isRunning (writeCSS x s) = isRunning s"
  "lastHandle (writeCSS x s) = lastHandle s"
  "lastScrollY (writeCSS x s) = lastScrollY s" "lastTime (writeCSS x s) = lastTime s"
  by (simp_all add: writeCSS_def Let_def)

lemma writeCSS_zero:
  "velocity s = 0 \<Longrightarrow> styleWrites (writeCSS 0 s) =
     styleWrites s @
       (if writeCSSVariables s \<and> writable (target s)
        then [\<lparr>scroll_velocity = 0, scroll_velocity_abs = 0,
               scroll_velocity_pow = 0, scroll_velocity_raw = 0\<rparr>]
        else [])"
  by (simp add: writeCSS_def Let_def)

lemma reachable_frames:
  "reachable s \<Longrightarrow>
     frames s = (if rafId s = 0 then {} else {rafId s})
     \<and> listening s = isRunning s \<and> (isRunning s \<or> rafId s = 0)"
proof (induction rule: reachable.induct)
  case (r_construct body opts)
  show ?case by (simp add: constructor_def)
next
  case (r_start s w)
  then show ?case by (auto simp: start_def requestFrame_def)
next
  case (r_stop s)
  then show ?case by (auto simp: stop_def Let_def writeCSS_frame_fields split: if_splits)
next
  case (r_setOptions s n)
  then show ?case by (simp add: setOptions_frame_fields)
next
  case (r_onScroll s w)
  then show ?case
    by (auto simp: onScroll_def Let_def ensureFrame_def requestFrame_def writeCSS_frame_fields
        split: if_splits)
next
  case (r_fire s k w)
  then show ?case
    by (auto simp: fire_def onRaf_def Let_def getNormalizedVelocity_real decay_def
        requestFrame_def writeCSS_frame_fields split: if_splits)
qed


lemma reachable_started: "reachable started"
  unfolding started_def fresh_def by (intro r_start r_construct)

subsection \<open>The frame handler at velocity zero\<close>

lemma onRaf_at_zero:
  "velocity s = 0 \<Longrightarrow>
     velocity (onRaf w s) = 0 \<and> rafId (onRaf w s) = 0 \<and> frames (onRaf w s) = frames s
     \<and> lastHandle (onRaf w s) = lastHandle s"
  by (simp add: onRaf_def Let_def getNormalizedVelocity_real decay_def velocity_writeCSS
      writeCSS_frame_fields)

lemma onRafs_at_zero:
  "velocity s = 0 \<Longrightarrow>
     velocity (onRafs ws s) = 0 \<and> frames (onRafs ws s) = frames s
     \<and> lastHandle (onRafs ws s) = lastHandle s
     \<and> (ws \<noteq> [] \<or> rafId s = 0 \<longrightarrow> rafId (onRafs ws s) = 0)"
proof (induction ws arbitrary: s)
  case Nil
  then show ?case by simp
next
  case (Cons w ws)
  from onRaf_at_zero [OF Cons.prems, of w] Cons.IH [of "onRaf w s"]
  show ?case by simp
qed

lemma onRaf_snap:
  assumes "\<not> reducedMotion w s"
    and "\<bar>velocity s * friction s * (1 - attraction s)\<bar> < threshold s"
  shows "velocity (onRaf w s) = 0 \<and> rafId (onRaf w s) = 0 \<and> frames (onRaf w s) = frames s
     \<and> lastHandle (onRaf w s) = lastHandle s"
  using assms
  by (simp add: onRaf_def Let_def getNormalizedVelocity_real decay_def velocity_writeCSS
      writeCSS_frame_fields reducedMotion_def)

subsection \<open>The sample trackers with threshold 5\<close>

lemma nudged_start:
  "velocity (start (win 0 0) (constructor body0 [''threshold'' \<mapsto> Num 5])) = 0"
  "rafId (start (win 0 0) (constructor body0 [''threshold'' \<mapsto> Num 5])) = 1"
  "frames (start (win 0 0) (constructor body0 [''threshold'' \<mapsto> Num 5])) = {1}"
  "lastHandle (start (win 0 0) (constructor body0 [''threshold'' \<mapsto> Num 5])) = 1"
  "friction (start (win 0 0) (constructor body0 [''threshold'' \<mapsto> Num 5])) = 0.92"
  "attraction (start (win 0 0) (constructor body0 [''threshold'' \<mapsto> Num 5])) = 0.04"
  "threshold (start (win 0 0) (constructor body0 [''threshold'' \<mapsto> Num 5])) = 5"
  "isRunning (start (win 0 0) (constructor body0 [''threshold'' \<mapsto> Num 5]))"
  "respectReducedMotion (start (win 0 0) (constructor body0 [''threshold'' \<mapsto> Num 5]))"
  "sampleMode (start (win 0 0) (constructor body0 [''threshold'' \<mapsto> Num 5])) = Str ''hybrid''"
  "responsiveness (start (win 0 0) (constructor body0 [''threshold'' \<mapsto> Num 5])) = 0.35"
  "maxVelocity (start (win 0 0) (constructor body0 [''threshold'' \<mapsto> Num 5])) = 200"
  "lastScrollY (start (win 0 0) (constructor body0 [''threshold'' \<mapsto> Num 5])) = 0"
  "lastTime (start (win 0 0) (constructor body0 [''threshold'' \<mapsto> Num 5])) = 0"
  by (simp_all add: start_def requestFrame_def constructor_def field_def js_or_def
      win_def readScrollY_def num_or_def)

lemma onRaf_fields:
  "friction (onRaf w s) = friction s" "attraction (onRaf w s) = attraction s"
  "threshold (onRaf w s) = threshold s" "isRunning (onRaf w s) = isRunning s"
  "respectReducedMotion (onRaf w s) = respectReducedMotion s"
  "sampleMode (onRaf w s) = sampleMode s" "responsiveness (onRaf w s) = responsiveness s"
  "maxVelocity (onRaf w s) = maxVelocity s" "lastScrollY (onRaf w s) = lastScrollY s"
  "lastTime (onRaf w s) = lastTime s"
  by (simp_all add: onRaf_def Let_def getNormalizedVelocity_real decay_def requestFrame_def
      writeCSS_def)

lemma nudged_simps:
  "velocity nudged = 3.2375" "rafId nudged = 1" "frames nudged = {1}" "lastHandle nudged = 1"
  "friction nudged = 0.92" "attraction nudged = 0.04" "threshold nudged = 5"
  "isRunning nudged" "respectReducedMotion nudged" "sampleMode nudged = Str ''hybrid''"
  "responsiveness nudged = 0.35" "maxVelocity nudged = 200" "lastScrollY nudged = 10"
  "lastTime nudged = 5"
proof -
  have i: "instantaneous (Str ''hybrid'') 10 5 = 9.25"
    by (simp add: instantaneous_def)
  have r: "\<not> reducedMotion (win 10 5) (start (win 0 0) (constructor body0 [''threshold'' \<mapsto> Num 5]))"
    by (simp add: reducedMotion_def win_def)
  have y: "readScrollY (win 10 5) = 10" "now (win 10 5) = 5"
    by (simp_all add: win_def readScrollY_def)
  have d: "deltaT_of 5 0 = 5" by (simp add: deltaT_of_def num_or_def)
  show "velocity nudged = 3.2375" "rafId nudged = 1" "frames nudged = {1}" "lastHandle nudged = 1"
  "friction nudged = 0.92" "attraction nudged = 0.04" "threshold nudged = 5"
  "isRunning nudged" "respectReducedMotion nudged" "sampleMode nudged = Str ''hybrid''"
  "responsiveness nudged = 0.35" "maxVelocity nudged = 200" "lastScrollY nudged = 10"
  "lastTime nudged = 5"
    by (simp_all add: nudged_def onScroll_def Let_def ensureFrame_def r y d i nudged_start
        clamp_def)
qed


lemma settled_simps:
  "velocity settled = 0" "rafId settled = 0" "frames settled = {}" "lastHandle settled = 1"
  "sampleMode settled = Str ''hybrid''" "responsiveness settled = 0.35"
  "maxVelocity settled = 200" "lastScrollY settled = 10" "lastTime settled = 5"
  "respectReducedMotion settled" "isRunning settled"
proof -
  have n: "\<not> reducedMotion (win 10 21) (nudged\<lparr>frames := {}\<rparr>)"
    by (simp add: reducedMotion_def win_def)
  have t: "\<bar>velocity (nudged\<lparr>frames := {}\<rparr>) * friction (nudged\<lparr>frames := {}\<rparr>)
      * (1 - attraction (nudged\<lparr>frames := {}\<rparr>))\<bar> < threshold (nudged\<lparr>frames := {}\<rparr>)"
    by (simp add: nudged_simps)
  have e: "settled = onRaf (win 10 21) (nudged\<lparr>frames := {}\<rparr>)"
    by (simp add: settled_def tick_def fire_def nudged_simps)
  from onRaf_snap [OF n t]
  show "velocity settled = 0" "rafId settled = 0" "frames settled = {}" "lastHandle settled = 1"
    by (simp_all add: e nudged_simps)
  show "sampleMode settled = Str ''hybrid''" "responsiveness settled = 0.35"
  "maxVelocity settled = 200" "lastScrollY settled = 10" "lastTime settled = 5"
  "respectReducedMotion settled" "isRunning settled"
    by (simp_all add: e onRaf_fields nudged_simps)
qed

subsection \<open>The scroll handler under reduced motion\<close>

lemma onScroll_config:
  "respectReducedMotion (onScroll w s) = respectReducedMotion s"
  "sampleMode (onScroll w s) = sampleMode s"
  "responsiveness (onScroll w s) = responsiveness s"
  by (simp_all add: onScroll_def Let_def ensureFrame_def requestFrame_def writeCSS_def)

lemma onScroll_reduced:
  assumes "reducedMotion w s"
  shows "velocity (onScroll w s) = 0 \<and> lastScrollY (onScroll w s) = lastScrollY s
     \<and> lastTime (onScroll w s) = lastTime s
     \<and> styleWrites (onScroll w s) =
         styleWrites s @
           (if writeCSSVariables s \<and> writable (target s)
            then [\<lparr>scroll_velocity = 0, scroll_velocity_abs = 0,
                   scroll_velocity_pow = 0, scroll_velocity_raw = 0\<rparr>]
            else [])
     \<and> rafId (onScroll w s) = (if rafId s = 0 then Suc (lastHandle s) else rafId s)
     \<and> frames (onScroll w s) =
         (if rafId s = 0 then insert (Suc (lastHandle s)) (frames s) else frames s)"
  using assms
  by (simp add: onScroll_def ensureFrame_def requestFrame_def writeCSS_frame_fields
      velocity_writeCSS writeCSS_zero)

lemma onScrolls_reduced:
  "\<forall>w \<in> set ws. reducedMotion w s \<Longrightarrow>
     lastScrollY (onScrolls ws s) = lastScrollY s \<and> lastTime (onScrolls ws s) = lastTime s
     \<and> respectReducedMotion (onScrolls ws s) = respectReducedMotion s
     \<and> sampleMode (onScrolls ws s) = sampleMode s
     \<and> responsiveness (onScrolls ws s) = responsiveness s
     \<and> maxVelocity (onScrolls ws s) = maxVelocity s
     \<and> (ws \<noteq> [] \<or> velocity s = 0 \<longrightarrow> velocity (onScrolls ws s) = 0)"
proof (induction ws arbitrary: s)
  case Nil
  then show ?case by simp
next
  case (Cons w ws)
  have r: "reducedMotion w s" using Cons.prems by simp
  have "\<forall>u \<in> set ws. reducedMotion u (onScroll w s)"
    using Cons.prems by (simp add: reducedMotion_def onScroll_config)
  from Cons.IH [OF this] onScroll_reduced [OF r] show ?case
    by (simp add: onScroll_config maxVelocity_onScroll)
qed

subsection \<open>Ticks while the velocity is above the threshold\<close>

lemma pow31: "(0.02::real) \<le> 0.8832 ^ 31"
  by (simp add: power_divide)

lemma pow32: "(0.0187::real) < 0.8832 ^ 32 \<and> (0.8832::real) ^ 32 < 0.0188"
  by (simp add: power_divide)

lemma pow30: "(0.024::real) < 0.8832 ^ 30 \<and> (0.8832::real) ^ 30 < 0.0241"
  by (simp add: power_divide)

lemma pow_le31: "n \<le> 31 \<Longrightarrow> (0.02::real) \<le> 0.8832 ^ n"
proof -
  assume "n \<le> 31"
  then have "(0.8832::real) ^ 31 \<le> 0.8832 ^ n"
    by (intro power_decreasing) simp_all
  with pow31 show ?thesis by linarith
qed

lemma tick_moving:
  assumes "reachable s" "isRunning s" "rafId s \<noteq> 0" "\<not> reducedMotion w s"
    "threshold s \<le> \<bar>velocity s * friction s * (1 - attraction s)\<bar>"
    "velocity s * friction s * (1 - attraction s) \<noteq> 0"
  shows "velocity (tick w s) = velocity s * friction s * (1 - attraction s)
     \<and> friction (tick w s) = friction s
     \<and> attraction (tick w s) = attraction s \<and> threshold (tick w s) = threshold s
     \<and> isRunning (tick w s)
     \<and> respectReducedMotion (tick w s) = respectReducedMotion s
     \<and> rafId (tick w s) \<noteq> 0 \<and> reachable (tick w s)"
proof -
  have fr: "rafId s \<in> frames s"
    using reachable_frames [OF assms(1)] assms(3) by simp
  have "reachable (fire w (rafId s) s)"
    using assms(1) fr by (rule r_fire)
  then have re: "reachable (tick w s)" by (simp add: tick_def)
  have "velocity (tick w s) = velocity s * friction s * (1 - attraction s)
     \<and> friction (tick w s) = friction s
     \<and> attraction (tick w s) = attraction s \<and> threshold (tick w s) = threshold s
     \<and> isRunning (tick w s)
     \<and> respectReducedMotion (tick w s) = respectReducedMotion s
     \<and> rafId (tick w s) \<noteq> 0"
    using assms(2,4,5,6) fr
    by (auto simp add: tick_def fire_def onRaf_def Let_def getNormalizedVelocity_real decay_def
       reducedMotion_def requestFrame_def writeCSS_def)
  with re show ?thesis by simp
qed

lemma tick_snap:
  assumes "reachable s" "rafId s \<noteq> 0" "\<not> reducedMotion w s"
    "\<bar>velocity s * friction s * (1 - attraction s)\<bar> < threshold s"
  shows "velocity (tick w s) = 0 \<and> rafId (tick w s) = 0 \<and> frames (tick w s) = {}
     \<and> reachable (tick w s)"
proof -
  have fr: "frames s = {rafId s}"
    using reachable_frames [OF assms(1)] assms(2) by simp
  then have "reachable (fire w (rafId s) s)"
    using assms(1) by (intro r_fire) simp_all
  then have re: "reachable (tick w s)" by (simp add: tick_def)
  have "tick w s = onRaf w (s\<lparr>frames := {}\<rparr>)"
    using fr by (simp add: tick_def fire_def)
  moreover have "velocity (onRaf w (s\<lparr>frames := {}\<rparr>)) = 0
      \<and> rafId (onRaf w (s\<lparr>frames := {}\<rparr>)) = 0
      \<and> frames (onRaf w (s\<lparr>frames := {}\<rparr>)) = frames (s\<lparr>frames := {}\<rparr>)
      \<and> lastHandle (onRaf w (s\<lparr>frames := {}\<rparr>)) = lastHandle (s\<lparr>frames := {}\<rparr>)"
    using assms(3,4) by (intro onRaf_snap) (simp_all add: reducedMotion_def)
  ultimately show ?thesis using re by simp
qed

lemma tick_settled: "reachable s \<Longrightarrow> rafId s = 0 \<Longrightarrow> tick w s = s"
  using reachable_frames [of s] by (simp add: tick_def fire_def)

lemma ticks_settled: "reachable s \<Longrightarrow> rafId s = 0 \<Longrightarrow> (tick w ^^ m) s = s"
  by (induction m) (simp_all add: tick_settled)

lemma ticks_closed_form:
  assumes "reachable s" "isRunning s" "rafId s \<noteq> 0" "\<not> reducedMotion w s"
    "friction s = 0.92" "attraction s = 0.04" "threshold s = 0.02"
    "velocity s = 0.8832 ^ k" "k + n \<le> 31"
  shows "velocity ((tick w ^^ n) s) = 0.8832 ^ (k + n)
     \<and> friction ((tick w ^^ n) s) = 0.92 \<and> attraction ((tick w ^^ n) s) = 0.04
     \<and> threshold ((tick w ^^ n) s) = 0.02 \<and> isRunning ((tick w ^^ n) s)
     \<and> \<not> reducedMotion w ((tick w ^^ n) s)
     \<and> rafId ((tick w ^^ n) s) \<noteq> 0 \<and> reachable ((tick w ^^ n) s)"
  using assms
proof (induction n arbitrary: s k)
  case 0
  then show ?case by simp
next
  case (Suc n)
  have v: "velocity s * friction s * (1 - attraction s) = 0.8832 ^ Suc k"
    by (simp add: Suc.prems(5,6,8))
  have ge: "(0.02::real) \<le> 0.8832 ^ Suc k"
    using Suc.prems(9) by (intro pow_le31) simp
  have th: "threshold s \<le> \<bar>velocity s * friction s * (1 - attraction s)\<bar>"
    using ge by (simp add: v Suc.prems(7))
  have nz: "velocity s * friction s * (1 - attraction s) \<noteq> 0"
    by (simp add: v)
  note step = tick_moving [OF Suc.prems(1,2,3,4) th nz]
  have rm: "\<not> reducedMotion w (tick w s)"
    using Suc.prems(4) step by (simp add: reducedMotion_def)
  have "velocity ((tick w ^^ n) (tick w s)) = 0.8832 ^ (Suc k + n)
     \<and> friction ((tick w ^^ n) (tick w s)) = 0.92 \<and> attraction ((tick w ^^ n) (tick w s)) = 0.04
     \<and> threshold ((tick w ^^ n) (tick w s)) = 0.02 \<and> isRunning ((tick w ^^ n) (tick w s))
     \<and> \<not> reducedMotion w ((tick w ^^ n) (tick w s))
     \<and> rafId ((tick w ^^ n) (tick w s)) \<noteq> 0 \<and> reachable ((tick w ^^ n) (tick w s))"
  proof (rule Suc.IH)
    show "reachable (tick w s)" using step by simp
    show "isRunning (tick w s)" using step by simp
    show "rafId (tick w s) \<noteq> 0" using step by simp
    show "\<not> reducedMotion w (tick w s)" by (rule rm)
    show "friction (tick w s) = 0.92" using step Suc.prems(5) by simp
    show "attraction (tick w s) = 0.04" using step Suc.prems(6) by simp
    show "threshold (tick w s) = 0.02" using step Suc.prems(7) by simp
    show "velocity (tick w s) = 0.8832 ^ Suc k" using step v by simp
    show "Suc k + n \<le> 31" using Suc.prems(9) by simp
  qed
  then show ?case by (simp add: funpow_swap1)
qed

lemma moving_simps:
  "reachable moving" "isRunning moving" "rafId moving \<noteq> 0" "velocity moving = 1"
  "friction moving = 0.92" "attraction moving = 0.04" "threshold moving = 0.02"
  "respectReducedMotion moving"
proof -
  let ?c = "constructor body0 [''sampleMode'' \<mapsto> Str ''delta'', ''responsiveness'' \<mapsto> Num 1]"
  have c: "reachable ?c" by (rule r_construct)
  have l: "listening (start (win 0 0) ?c)"
    by (simp add: start_def requestFrame_def constructor_def)
  show "reachable moving"
    unfolding moving_def by (intro r_onScroll r_start c l)
  show "isRunning moving" "rafId moving \<noteq> 0" "velocity moving = 1"
    "friction moving = 0.92" "attraction moving = 0.04" "threshold moving = 0.02"
    "respectReducedMotion moving"
    by (simp_all add: moving_def onScroll_def Let_def start_def requestFrame_def
        ensureFrame_def constructor_def field_def js_or_def reducedMotion_def win_def
        readScrollY_def num_or_def deltaT_of_def instantaneous_def clamp_def)
qed

subsection \<open>Bounds on the exponential and on ln 50\<close>

lemma exp_lower_sum:
  fixes x :: real
  assumes "0 \<le> x"
  shows "(\<Sum>m<n. x ^ m / fact m) \<le> exp x"
proof -
  obtain t where "exp x = (\<Sum>m<n. x ^ m / fact m) + (exp t / fact n) * x ^ n"
    using Maclaurin_exp_le [of x n] by blast
  moreover have "0 \<le> (exp t / fact n) * x ^ n"
    using assms by simp
  ultimately show ?thesis by linarith
qed

lemma exp_upper_sum:
  fixes x :: real
  assumes "0 \<le> x" and "x ^ n / fact n < 1"
  shows "exp x \<le> (\<Sum>m<n. x ^ m / fact m) / (1 - x ^ n / fact n)"
proof -
  obtain t where t: "\<bar>t\<bar> \<le> \<bar>x\<bar>"
    and e: "exp x = (\<Sum>m<n. x ^ m / fact m) + (exp t / fact n) * x ^ n"
    using Maclaurin_exp_le [of x n] by blast
  have "exp t \<le> exp x" using t assms(1) by simp
  moreover have "0 \<le> x ^ n / fact n" using assms(1) by simp
  ultimately have "exp t * (x ^ n / fact n) \<le> exp x * (x ^ n / fact n)"
    by (rule mult_right_mono)
  moreover have "exp x * (1 - x ^ n / fact n) = exp x - exp x * (x ^ n / fact n)"
    by (simp add: right_diff_distrib)
  moreover have "(exp t / fact n) * x ^ n = exp t * (x ^ n / fact n)"
    by simp
  ultimately have "exp x * (1 - x ^ n / fact n) \<le> (\<Sum>m<n. x ^ m / fact m)"
    using e by linarith
  then show ?thesis using assms(2) by (simp add: pos_le_divide_eq)
qed

lemma ln_50_bounds: "3.91 < ln (50::real) \<and> ln (50::real) < 3.9125"
proof
  have "exp (3.91::real) \<le> (\<Sum>m<16. 3.91 ^ m / fact m) / (1 - 3.91 ^ 16 / fact 16)"
    by (rule exp_upper_sum) (simp_all add: eval_nat_numeral)
  also have "\<dots> < 50"
    by (simp add: eval_nat_numeral)
  finally have "ln (exp (3.91::real)) < ln 50"
    by (simp only: ln_less_cancel_iff exp_gt_zero zero_less_numeral)
  then show "3.91 < ln (50::real)" by simp
next
  have "(50::real) < (\<Sum>m<14. 3.9125 ^ m / fact m)"
    by (simp add: eval_nat_numeral)
  also have "\<dots> \<le> exp 3.9125"
    by (rule exp_lower_sum) simp
  finally have "ln (50::real) < ln (exp 3.9125)"
    by (simp only: ln_less_cancel_iff exp_gt_zero zero_less_numeral)
  then show "ln (50::real) < 3.9125" by simp
qed


subsection \<open>Normalisation\<close>

text \<open>
  C2, as stated, fails: the result is \<open>NaN\<close>, outside \<open>[-1, 1]\<close>, when
  \<open>maxVelocity\<close> is \<open>NaN\<close>, and also on the velocity that one decay step leaves
  from velocity 100 with friction 1e308 and attraction 1: the product overflows to an
  infinity, times \<open>1 - 1\<close> it is \<open>NaN\<close>, and the snap test is false.
\<close>

theorem normalized_nan_counterexample:
  "fst (getNormalizedVelocity_js (overflowing\<lparr>n_maxVelocity := NaN\<rparr>)) = NaN
   \<and> n_velocity (decay_js overflowing) = NaN
   \<and> n_maxVelocity (decay_js overflowing) = Fin 200
   \<and> fst (getNormalizedVelocity_js (decay_js overflowing)) = NaN
   \<and> \<not> (le_js (Fin (- 1)) (fst (getNormalizedVelocity_js (decay_js overflowing)))
         \<and> le_js (fst (getNormalizedVelocity_js (decay_js overflowing))) (Fin 1))"
proof -
  have d: "n_velocity (decay_js overflowing) = NaN"
    "n_maxVelocity (decay_js overflowing) = Fin 200"
    by (simp_all add: overflowing_def decay_js_def ovf_def overflow_bound_def Let_def)
  have "fst (getNormalizedVelocity_js (decay_js overflowing)) = NaN"
    by (simp add: getNormalizedVelocity_js_def d clamp_js_def min_js_def max_js_def)
  moreover have "fst (getNormalizedVelocity_js (overflowing\<lparr>n_maxVelocity := NaN\<rparr>)) = NaN"
    by (simp add: getNormalizedVelocity_js_def overflowing_def clamp_js_def min_js_def
        max_js_def)
  ultimately show ?thesis using d by simp
qed

text \<open>
  C2, amended. For every state, \<open>getNormalizedVelocity()\<close> returns 0 when
  \<open>maxVelocity \<le> 0\<close> and \<open>clamp(velocity / maxVelocity, -1, 1)\<close> otherwise, and
  leaves the state as it was. When velocity and \<open>maxVelocity\<close> are not \<open>NaN\<close> and
  not both infinite, the result lies in \<open>[-1, 1]\<close>. The result is \<open>NaN\<close> exactly
  when \<open>maxVelocity\<close> is \<open>NaN\<close>, or \<open>maxVelocity \<le> 0\<close> is false and velocity is
  \<open>NaN\<close> or both are infinite. On a tracker with finite fields the call returns the
  finite value 0 or \<open>clamp(velocity / maxVelocity, -1, 1)\<close>, the division being by a
  positive number, and the tracker is unchanged.
\<close>

theorem getNormalizedVelocity_spec:
  "fst (getNormalizedVelocity_js n) =
     (if le_js (n_maxVelocity n) (Fin 0) then Fin 0
      else clamp_js (div_js (n_velocity n) (n_maxVelocity n)) (Fin (- 1)) (Fin 1))
   \<and> snd (getNormalizedVelocity_js n) = n
   \<and> (le_js (n_maxVelocity n) (Fin 0) \<longrightarrow> fst (getNormalizedVelocity_js n) = Fin 0)
   \<and> (n_velocity n \<noteq> NaN \<and> n_maxVelocity n \<noteq> NaN
        \<and> \<not> (infinite_js (n_velocity n) \<and> infinite_js (n_maxVelocity n)) \<longrightarrow>
        le_js (Fin (- 1)) (fst (getNormalizedVelocity_js n))
        \<and> le_js (fst (getNormalizedVelocity_js n)) (Fin 1))
   \<and> (fst (getNormalizedVelocity_js n) = NaN \<longleftrightarrow>
        n_maxVelocity n = NaN
        \<or> (\<not> le_js (n_maxVelocity n) (Fin 0)
            \<and> (n_velocity n = NaN
                \<or> (infinite_js (n_velocity n) \<and> infinite_js (n_maxVelocity n)))))
   \<and> fst (getNormalizedVelocity_js (numbers_of s)) = Fin (fst (getNormalizedVelocity s))
   \<and> fst (getNormalizedVelocity s) =
        (if maxVelocity s \<le> 0 then 0 else clamp (velocity s / maxVelocity s) (- 1) 1)
   \<and> - 1 \<le> fst (getNormalizedVelocity s) \<and> fst (getNormalizedVelocity s) \<le> 1
   \<and> snd (getNormalizedVelocity s) = s"
proof -
  have val: "fst (getNormalizedVelocity_js n) =
     (if le_js (n_maxVelocity n) (Fin 0) then Fin 0
      else clamp_js (div_js (n_velocity n) (n_maxVelocity n)) (Fin (- 1)) (Fin 1))"
    and same: "snd (getNormalizedVelocity_js n) = n"
    by (simp_all add: getNormalizedVelocity_js_def)
  have guard: "le_js (n_maxVelocity n) (Fin 0) \<longrightarrow> fst (getNormalizedVelocity_js n) = Fin 0"
    by (simp add: val)
  note nan = normalized_js_nan_iff [of n]
  have range: "n_velocity n \<noteq> NaN \<and> n_maxVelocity n \<noteq> NaN
        \<and> \<not> (infinite_js (n_velocity n) \<and> infinite_js (n_maxVelocity n)) \<longrightarrow>
        le_js (Fin (- 1)) (fst (getNormalizedVelocity_js n))
        \<and> le_js (fst (getNormalizedVelocity_js n)) (Fin 1)"
  proof
    assume "n_velocity n \<noteq> NaN \<and> n_maxVelocity n \<noteq> NaN
        \<and> \<not> (infinite_js (n_velocity n) \<and> infinite_js (n_maxVelocity n))"
    then have "fst (getNormalizedVelocity_js n) \<noteq> NaN"
      using nan by blast
    then show "le_js (Fin (- 1)) (fst (getNormalizedVelocity_js n))
        \<and> le_js (fst (getNormalizedVelocity_js n)) (Fin 1)"
      by (rule normalized_js_in_range)
  qed
  have fin: "fst (getNormalizedVelocity_js (numbers_of s)) = Fin (fst (getNormalizedVelocity s))"
    by (simp add: normalized_js_Fin getNormalizedVelocity_real)
  have real: "fst (getNormalizedVelocity s) =
        (if maxVelocity s \<le> 0 then 0 else clamp (velocity s / maxVelocity s) (- 1) 1)"
    "snd (getNormalizedVelocity s) = s"
    by (simp_all add: getNormalizedVelocity_real)
  have unit: "- 1 \<le> fst (getNormalizedVelocity s)" "fst (getNormalizedVelocity s) \<le> 1"
    using clamp_unit [of "velocity s / maxVelocity s"] by (simp_all add: real(1))
  show ?thesis
    by (intro conjI) (fact val same guard range nan fin real unit)+
qed

theorem getNormalizedVelocity_spec_witness:
  "n_velocity (overflowing\<lparr>n_velocity := Fin 50\<rparr>) \<noteq> NaN
   \<and> n_maxVelocity (overflowing\<lparr>n_velocity := Fin 50\<rparr>) \<noteq> NaN
   \<and> \<not> (infinite_js (n_velocity (overflowing\<lparr>n_velocity := Fin 50\<rparr>))
         \<and> infinite_js (n_maxVelocity (overflowing\<lparr>n_velocity := Fin 50\<rparr>)))
   \<and> le_js (Fin (- 1)) (fst (getNormalizedVelocity_js (overflowing\<lparr>n_velocity := Fin 50\<rparr>)))
   \<and> le_js (fst (getNormalizedVelocity_js (overflowing\<lparr>n_velocity := Fin 50\<rparr>))) (Fin 1)
   \<and> le_js (n_maxVelocity (overflowing\<lparr>n_maxVelocity := Fin (- 2)\<rparr>)) (Fin 0)
   \<and> fst (getNormalizedVelocity_js (overflowing\<lparr>n_maxVelocity := Fin (- 2)\<rparr>)) = Fin 0"
proof -
  let ?a = "overflowing\<lparr>n_velocity := Fin 50\<rparr>"
  let ?b = "overflowing\<lparr>n_maxVelocity := Fin (- 2)\<rparr>"
  have h: "n_velocity ?a \<noteq> NaN \<and> n_maxVelocity ?a \<noteq> NaN
      \<and> \<not> (infinite_js (n_velocity ?a) \<and> infinite_js (n_maxVelocity ?a))"
    by (simp add: overflowing_def)
  have g: "le_js (n_maxVelocity ?b) (Fin 0)"
    by (simp add: overflowing_def)
  from getNormalizedVelocity_spec [of ?a started] h
  have r: "le_js (Fin (- 1)) (fst (getNormalizedVelocity_js ?a))
      \<and> le_js (fst (getNormalizedVelocity_js ?a)) (Fin 1)"
    by blast
  from getNormalizedVelocity_spec [of ?b started] g
  have z: "fst (getNormalizedVelocity_js ?b) = Fin 0"
    by blast
  from h r g z show ?thesis by blast
qed

subsection \<open>The clamp after a blend\<close>

text \<open>
  C1. With \<open>maxVelocity > 0\<close>, a scroll event that is not under reduced motion sets
  the velocity to the blend \<open>velocity * (1 - responsiveness) + (velocity + instantaneous)
  * responsiveness\<close>, clamped to \<open>[-maxVelocity, maxVelocity]\<close>; after the handler
  \<open>|velocity| \<le> maxVelocity\<close>, and so it is after the last of any non-empty series
  of scroll events, whatever the state the series started in.
\<close>

theorem blend_clamp_invariant:
  assumes "0 < maxVelocity s"
  shows "(\<not> reducedMotion w s \<longrightarrow>
            velocity (onScroll w s) =
              clamp (velocity s * (1 - responsiveness s)
                     + (velocity s
                        + instantaneous (sampleMode s) (readScrollY w - lastScrollY s)
                            (deltaT_of (now w) (lastTime s))) * responsiveness s)
                (- maxVelocity s) (maxVelocity s))
         \<and> \<bar>velocity (onScroll w s)\<bar> \<le> maxVelocity s
         \<and> (ws \<noteq> [] \<longrightarrow> \<bar>velocity (onScrolls ws s)\<bar> \<le> maxVelocity s)"
proof -
  have step: "\<And>s' w'. 0 < maxVelocity s' \<Longrightarrow> \<bar>velocity (onScroll w' s')\<bar> \<le> maxVelocity s'"
    by (simp add: velocity_onScroll_bound)
  have blend: "\<not> reducedMotion w s \<Longrightarrow>
      velocity (onScroll w s) =
        clamp (velocity s * (1 - responsiveness s)
               + (velocity s
                  + instantaneous (sampleMode s) (readScrollY w - lastScrollY s)
                      (deltaT_of (now w) (lastTime s))) * responsiveness s)
          (- maxVelocity s) (maxVelocity s)"
    by (simp add: onScroll_def Let_def velocity_ensureFrame algebra_simps)
  have series: "ws \<noteq> [] \<Longrightarrow> \<bar>velocity (onScrolls ws s)\<bar> \<le> maxVelocity s"
    using assms
  proof (induction ws arbitrary: s rule: rev_induct)
    case Nil
    then show ?case by simp
  next
    case (snoc w' ws')
    have app: "onScrolls (ws' @ [w']) s = onScroll w' (onScrolls ws' s)"
      by (induction ws' arbitrary: s) simp_all
    have "0 < maxVelocity (onScrolls ws' s)"
      using snoc.prems(2) by (simp add: maxVelocity_onScrolls)
    then have "\<bar>velocity (onScroll w' (onScrolls ws' s))\<bar> \<le> maxVelocity (onScrolls ws' s)"
      by (rule step)
    then show ?case by (simp add: app maxVelocity_onScrolls)
  qed
  from blend step [OF assms] series show ?thesis by blast
qed

theorem blend_clamp_invariant_witness:
  "0 < maxVelocity started \<and> \<not> reducedMotion (win 1000 5) started
   \<and> [win 1000 5, win 400 30] \<noteq> []
   \<and> velocity (onScroll (win 1000 5) started) = 200
   \<and> \<bar>velocity (onScrolls [win 1000 5, win 400 30] started)\<bar> \<le> maxVelocity started"
  using blend_clamp_invariant [of started "win 1000 5" "[win 1000 5, win 400 30]"]
  by (simp add: started_simps reducedMotion_def win_def readScrollY_def deltaT_of_def
      num_or_def instantaneous_def clamp_def)

subsection \<open>Elapsed time and the divisions of the sampling modes\<close>

lemma instantaneous_checked_total:
  "instantaneous_checked mode deltaY deltaT = Some (instantaneous mode deltaY deltaT)"
  by (simp add: instantaneous_checked_def instantaneous_def js_div_def js_log_def Let_def
      max_def)

text \<open>
  C3, as stated, fails: a negative elapsed time is not replaced. With the last sample
  at 100 ms and the clock reading 95 ms, the elapsed time used is \<open>-5\<close>, not 16.7,
  and a tracker in time mode that moved by 30 gets the estimate 0 and keeps velocity 0,
  where an elapsed time of 16.7 would have given \<open>30 / 16.7 * 12\<close>.
\<close>

theorem negative_elapsed_kept:
  "deltaT_of (now (win 30 95)) (lastTime (started\<lparr>sampleMode := Str ''time'', lastTime := 100\<rparr>))
     = - 5
   \<and> deltaT_of 95 100 \<noteq> 16.7
   \<and> instantaneous (Str ''time'') 30 (deltaT_of 95 100) = 0
   \<and> instantaneous (Str ''time'') 30 16.7 \<noteq> 0
   \<and> velocity (onScroll (win 30 95) (started\<lparr>sampleMode := Str ''time'', lastTime := 100\<rparr>))
     = 0"
  by (simp add: deltaT_of_def num_or_def instantaneous_def win_def onScroll_def Let_def
      started_simps reducedMotion_def readScrollY_def velocity_ensureFrame clamp_def)

text \<open>
  C3, amended. An elapsed time of exactly zero is replaced by 16.7 ms; any other
  elapsed time, negative ones included, is used as it is, so the elapsed time used is
  never zero. In every sampling mode the estimate is computed without a division by
  zero and without a logarithm outside the positive numbers (the checked sampling
  block returns a value, the one the sampling block computes). With a negative
  elapsed time, time mode does not divide and gives 0, and hybrid mode computes as for
  an elapsed time of 4 ms.
\<close>

theorem elapsed_time_guarded:
  "deltaT_of t t = 16.7
   \<and> (t \<noteq> lastT \<longrightarrow> deltaT_of t lastT = t - lastT)
   \<and> deltaT_of t lastT \<noteq> 0
   \<and> instantaneous_checked mode deltaY (deltaT_of t lastT)
       = Some (instantaneous mode deltaY (deltaT_of t lastT))
   \<and> (deltaT_of t lastT < 0 \<longrightarrow>
        instantaneous (Str ''time'') deltaY (deltaT_of t lastT) = 0)
   \<and> (deltaT_of t lastT < 0 \<longrightarrow>
        instantaneous (Str ''hybrid'') deltaY (deltaT_of t lastT)
          = instantaneous (Str ''hybrid'') deltaY 4)"
  by (simp add: instantaneous_checked_total)
    (simp add: deltaT_of_def num_or_def instantaneous_def max_def)

theorem elapsed_time_guarded_witness:
  "(95::real) \<noteq> 100 \<and> deltaT_of 95 100 < 0
   \<and> deltaT_of 95 100 = - 5
   \<and> instantaneous_checked (Str ''time'') 30 (deltaT_of 95 100) = Some 0
   \<and> instantaneous (Str ''hybrid'') 30 (deltaT_of 95 100) = 273 / 10"
  using elapsed_time_guarded [of 95 100 "Str ''time''" 30]
  by (simp add: deltaT_of_def num_or_def instantaneous_def)

subsection \<open>The legacy option name\<close>

text \<open>\<open>setOptions\<close> takes \<open>dampening\<close> for \<open>responsiveness\<close>: for every number
  \<open>x\<close> the two calls end in the same state, with responsiveness \<open>x\<close>.\<close>

lemma setOptions_dampening_alias:
  "setOptions [''dampening'' \<mapsto> Num x] s = setOptions [''responsiveness'' \<mapsto> Num x] s
   \<and> responsiveness (setOptions [''dampening'' \<mapsto> Num x] s) = x"
  by (simp add: setOptions_def setTarget_def setSampleMode_def setResponsiveness_def
      setDampening_def setFriction_def setAttraction_def setThreshold_def
      setMaxVelocity_def setWriteCSSVariables_def setRespectReducedMotion_def hasKey_def
      field_def)

text \<open>
  C5 at the constructor: \<open>new ScrollVelocity({dampening: 0.5})\<close> leaves
  responsiveness at the default 0.35, where \<open>new ScrollVelocity({responsiveness:
  0.5})\<close> sets it to 0.5. The constructor reads no field named \<open>dampening\<close>.
\<close>

theorem constructor_ignores_dampening:
  "responsiveness (constructor body0 [''dampening'' \<mapsto> Num 0.5]) = 0.35
   \<and> responsiveness (constructor body0 [''responsiveness'' \<mapsto> Num 0.5]) = 0.5
   \<and> constructor body0 [''dampening'' \<mapsto> Num 0.5] = constructor body0 Map.empty"
  by (simp add: constructor_def field_def)

subsection \<open>Decay\<close>






subsection \<open>Stopping\<close>

text \<open>
  C7. \<open>stop()\<close> on a tracker that is not running changes nothing: the state,
  the style writes included, is the one before. On a running tracker it leaves
  velocity 0, running false, no frame handle held and the listener unsubscribed; the
  frame it held is cancelled, so that in a reachable state no frame is pending after;
  and it writes to the style exactly once, all four values zero, when writing is
  enabled and the target has a style, and not at all otherwise. Stopping twice is
  stopping once.
\<close>

theorem stop_spec:
  "(\<not> isRunning s \<longrightarrow> stop s = s)
   \<and> (isRunning s \<longrightarrow>
        velocity (stop s) = 0 \<and> \<not> isRunning (stop s) \<and> rafId (stop s) = 0
        \<and> \<not> listening (stop s)
        \<and> frames (stop s) = (if rafId s \<noteq> 0 then frames s - {rafId s} else frames s)
        \<and> styleWrites (stop s) =
            styleWrites s @
              (if writeCSSVariables s \<and> writable (target s)
               then [\<lparr>scroll_velocity = 0, scroll_velocity_abs = 0,
                      scroll_velocity_pow = 0, scroll_velocity_raw = 0\<rparr>]
               else []))
   \<and> stop (stop s) = stop s
   \<and> (reachable s \<longrightarrow> frames (stop s) = {})"
proof -
  have idle: "\<not> isRunning s \<Longrightarrow> stop s = s"
    by (simp add: stop_def)
  have run: "isRunning s \<Longrightarrow>
        velocity (stop s) = 0 \<and> \<not> isRunning (stop s) \<and> rafId (stop s) = 0
        \<and> \<not> listening (stop s)
        \<and> frames (stop s) = (if rafId s \<noteq> 0 then frames s - {rafId s} else frames s)
        \<and> styleWrites (stop s) =
            styleWrites s @
              (if writeCSSVariables s \<and> writable (target s)
               then [\<lparr>scroll_velocity = 0, scroll_velocity_abs = 0,
                      scroll_velocity_pow = 0, scroll_velocity_raw = 0\<rparr>]
               else [])"
    by (simp add: stop_def Let_def writeCSS_frame_fields velocity_writeCSS writeCSS_zero)
  have off: "\<not> isRunning (stop s)"
    using idle run by (cases "isRunning s") simp_all
  have twice: "stop (stop s) = stop s"
    using off by (simp add: stop_def [of "stop s"])
  have none: "reachable s \<Longrightarrow> frames (stop s) = {}"
    using reachable_frames [OF r_stop, of s] off by (simp split: if_splits)
  from idle run twice none show ?thesis by blast
qed

theorem stop_spec_witness: "\<not> isRunning fresh \<and> stop fresh = fresh
   \<and> isRunning started \<and> reachable started \<and> frames started = {1}
   \<and> frames (stop started) = {} \<and> velocity (stop (started\<lparr>velocity := 7\<rparr>)) = 0
   \<and> isRunning (started\<lparr>velocity := 7\<rparr>)
   \<and> styleWrites (stop started) = [\<lparr>scroll_velocity = 0, scroll_velocity_abs = 0,
                      scroll_velocity_pow = 0, scroll_velocity_raw = 0\<rparr>]"
  using stop_spec [of fresh] stop_spec [of started] stop_spec [of "started\<lparr>velocity := 7\<rparr>"]
    reachable_started
  by (simp add: fresh_simps started_simps body0_def)


subsection \<open>Zero is absorbing for the decay\<close>

text \<open>
  C8, as stated, fails: a tick is scheduled, and runs, while velocity is exactly zero
  and before any sample has made it non-zero. The tracker \<open>settled\<close> has decayed
  from velocity 3.2375 to below its threshold 5: velocity 0, no frame held or pending.
  A scroll event that moves the position by 0.2, which the noise filter of hybrid mode
  takes for no movement, leaves velocity 0 and requests frame 2; that tick runs at
  velocity 0.
\<close>

theorem tick_at_zero_counterexample:
  "velocity nudged = 3.2375 \<and> threshold nudged = 5
   \<and> velocity settled = 0 \<and> rafId settled = 0 \<and> frames settled = {}
   \<and> readScrollY (win (51 / 5) 10) - lastScrollY settled = 1 / 5
   \<and> velocity (onScroll (win (51 / 5) 10) settled) = 0
   \<and> rafId (onScroll (win (51 / 5) 10) settled) = 2
   \<and> frames (onScroll (win (51 / 5) 10) settled) = {2}
   \<and> velocity (tick (win (51 / 5) 26) (onScroll (win (51 / 5) 10) settled)) = 0
   \<and> rafId (tick (win (51 / 5) 26) (onScroll (win (51 / 5) 10) settled)) = 0
   \<and> frames (tick (win (51 / 5) 26) (onScroll (win (51 / 5) 10) settled)) = {}"
proof -
  let ?u = "onScroll (win (51 / 5) 10) settled"
  have y: "readScrollY (win (51 / 5) 10) = 51 / 5" "now (win (51 / 5) 10) = 10"
    by (simp_all add: win_def readScrollY_def)
  have dy: "readScrollY (win (51 / 5) 10) - lastScrollY settled = 1 / 5"
    by (simp add: y settled_simps)
  have r: "\<not> reducedMotion (win (51 / 5) 10) settled"
    by (simp add: reducedMotion_def win_def)
  have d: "deltaT_of 10 5 = 5" by (simp add: deltaT_of_def num_or_def)
  have i: "instantaneous (Str ''hybrid'') (1 / 5) 5 = 0"
    by (simp add: instantaneous_def)
  have u: "velocity ?u = 0" "rafId ?u = 2" "frames ?u = {2}"
    by (simp_all add: onScroll_def Let_def ensureFrame_def requestFrame_def r y d i
        settled_simps clamp_def)
  have e: "tick (win (51 / 5) 26) ?u = onRaf (win (51 / 5) 26) (?u\<lparr>frames := {}\<rparr>)"
    by (simp add: tick_def fire_def u)
  have "velocity (?u\<lparr>frames := {}\<rparr>) = 0" by (simp add: u)
  from onRaf_at_zero [OF this, of "win (51 / 5) 26"] u dy
  show ?thesis by (simp add: e nudged_simps settled_simps)
qed

text \<open>
  C8, amended. When a decay step brings \<open>|velocity|\<close> below the threshold (the snap
  test of the source, on the numbers of the host language, holds), the velocity after
  the frame handler is exactly 0, the handler holds no frame and has requested none.
  However often the handler then runs again, with or without reduced motion, the
  velocity stays 0 and the handler requests and holds no frame. Any scroll event after
  that requests a frame again, whether or not it leaves the velocity at zero.
\<close>

theorem zero_absorbing:
  assumes "\<not> reducedMotion w s"
    and "lt_js (abs_js (mul_js (mul_js (Fin (velocity s)) (Fin (friction s)))
              (sub_js (Fin 1) (Fin (attraction s))))) (Fin (threshold s))"
  shows "n_velocity (decay_js (numbers_of s)) = Fin 0
     \<and> velocity (onRaf w s) = 0 \<and> rafId (onRaf w s) = 0 \<and> frames (onRaf w s) = frames s
     \<and> velocity (onRafs ws (onRaf w s)) = 0
     \<and> rafId (onRafs ws (onRaf w s)) = 0
     \<and> frames (onRafs ws (onRaf w s)) = frames s
     \<and> rafId (onScroll w' (onRafs ws (onRaf w s))) \<noteq> 0
     \<and> rafId (onScroll w' (onRafs ws (onRaf w s)))
          \<in> frames (onScroll w' (onRafs ws (onRaf w s)))"
proof -
  let ?z = "onRaf w s"
  have below: "\<bar>velocity s * friction s * (1 - attraction s)\<bar> < threshold s"
    using assms(2) by (rule snap_js_real)
  have js: "n_velocity (decay_js (numbers_of s)) = Fin 0"
    using assms(2) by (rule decay_js_snap)
  have z: "velocity ?z = 0 \<and> rafId ?z = 0 \<and> frames ?z = frames s"
    using onRaf_snap [OF assms(1) below] by simp
  then have zs: "velocity (onRafs ws ?z) = 0 \<and> rafId (onRafs ws ?z) = 0
      \<and> frames (onRafs ws ?z) = frames s"
    using onRafs_at_zero [of ?z ws] by simp
  have arm: "\<And>u. rafId u = 0 \<Longrightarrow>
      rafId (onScroll w' u) \<noteq> 0 \<and> rafId (onScroll w' u) \<in> frames (onScroll w' u)"
    by (simp add: onScroll_def Let_def ensureFrame_def requestFrame_def writeCSS_frame_fields)
  from js z zs arm [of "onRafs ws ?z"] show ?thesis by simp
qed

theorem zero_absorbing_witness:
  "\<not> reducedMotion (win 10 21) nudged
   \<and> lt_js (abs_js (mul_js (mul_js (Fin (velocity nudged)) (Fin (friction nudged)))
              (sub_js (Fin 1) (Fin (attraction nudged))))) (Fin (threshold nudged))
   \<and> velocity nudged = 3.2375
   \<and> velocity (onRaf (win 10 21) nudged) = 0
   \<and> velocity (onRafs [win 10 37, win_reduced 10 53] (onRaf (win 10 21) nudged)) = 0
   \<and> rafId (onRafs [win 10 37, win_reduced 10 53] (onRaf (win 10 21) nudged)) = 0"
  using zero_absorbing [of "win 10 21" nudged "[win 10 37, win_reduced 10 53]"]
  by (simp add: nudged_simps reducedMotion_def win_def ovf_def overflow_bound_def)

subsection \<open>Scroll events under reduced motion\<close>

text \<open>
  C10. Under reduced motion (the preference active and respected) the scroll handler
  sets velocity to 0, writes zero output when writing is enabled, holds a frame after
  (requesting one when none was held), and leaves \<open>lastScrollY\<close> and \<open>lastTime\<close>
  as they were. So after any series of such events the first event without reduced
  motion computes its position and time differences from the last sample taken
  before the series, and blends its estimate from velocity 0.
\<close>

theorem reduced_motion_keeps_last_sample:
  assumes "\<forall>u \<in> set (w # ws). reducedMotion u s" and "\<not> reducedMotion w' s"
  shows "velocity (onScroll w s) = 0 \<and> lastScrollY (onScroll w s) = lastScrollY s
     \<and> lastTime (onScroll w s) = lastTime s
     \<and> styleWrites (onScroll w s) =
         styleWrites s @
           (if writeCSSVariables s \<and> writable (target s)
            then [\<lparr>scroll_velocity = 0, scroll_velocity_abs = 0,
                   scroll_velocity_pow = 0, scroll_velocity_raw = 0\<rparr>]
            else [])
     \<and> rafId (onScroll w s) = (if rafId s = 0 then Suc (lastHandle s) else rafId s)
     \<and> frames (onScroll w s) =
         (if rafId s = 0 then insert (Suc (lastHandle s)) (frames s) else frames s)
     \<and> lastScrollY (onScrolls (w # ws) s) = lastScrollY s
     \<and> lastTime (onScrolls (w # ws) s) = lastTime s
     \<and> velocity (onScroll w' (onScrolls (w # ws) s)) =
         clamp (instantaneous (sampleMode s) (readScrollY w' - lastScrollY s)
                  (deltaT_of (now w') (lastTime s)) * responsiveness s)
           (- maxVelocity s) (maxVelocity s)"
proof -
  have r: "reducedMotion w s" using assms(1) by simp
  note one = onScroll_reduced [OF r]
  note all = onScrolls_reduced [OF assms(1)]
  have n: "\<not> reducedMotion w' (onScrolls (w # ws) s)"
    using assms(2) all by (simp add: reducedMotion_def)
  have "velocity (onScroll w' (onScrolls (w # ws) s)) =
         clamp (instantaneous (sampleMode s) (readScrollY w' - lastScrollY s)
                  (deltaT_of (now w') (lastTime s)) * responsiveness s)
           (- maxVelocity s) (maxVelocity s)"
    using n all by (simp add: onScroll_def [of w'] Let_def velocity_ensureFrame)
  with one all show ?thesis by simp
qed

theorem reduced_motion_keeps_last_sample_witness:
  "reducedMotion (win_reduced 150 1000) (started\<lparr>sampleMode := Str ''delta''\<rparr>)
   \<and> reducedMotion (win_reduced 300 2000) (started\<lparr>sampleMode := Str ''delta''\<rparr>)
   \<and> \<not> reducedMotion (win 400 2005) (started\<lparr>sampleMode := Str ''delta''\<rparr>)
   \<and> lastScrollY (onScrolls [win_reduced 150 1000, win_reduced 300 2000]
        (started\<lparr>sampleMode := Str ''delta''\<rparr>)) = 0
   \<and> velocity (onScroll (win 400 2005)
        (onScrolls [win_reduced 150 1000, win_reduced 300 2000]
           (started\<lparr>sampleMode := Str ''delta''\<rparr>))) = 140"
  using reduced_motion_keeps_last_sample [of "win_reduced 150 1000" "[win_reduced 300 2000]"
      "started\<lparr>sampleMode := Str ''delta''\<rparr>" "win 400 2005"]
  by (simp add: started_simps reducedMotion_def win_def win_reduced_def readScrollY_def
      deltaT_of_def num_or_def instantaneous_def clamp_def)

subsection \<open>The decay run from velocity 1\<close>

text \<open>
  C4, as stated, fails at the tick count: \<open>0.8832 ^ 30\<close> is about 0.0241, above the
  threshold 0.02. The tracker \<open>moving\<close> has velocity 1 and the default friction,
  attraction and threshold; after 30 ticks its velocity is not 0 but above the
  threshold, and it holds a frame for the next tick.
\<close>

theorem thirty_ticks_not_settled:
  "velocity moving = 1 \<and> friction moving = 0.92 \<and> attraction moving = 0.04
   \<and> threshold moving = 0.02
   \<and> velocity ((tick (win 1 26) ^^ 30) moving) \<noteq> 0
   \<and> threshold ((tick (win 1 26) ^^ 30) moving) < velocity ((tick (win 1 26) ^^ 30) moving)
   \<and> rafId ((tick (win 1 26) ^^ 30) moving) \<noteq> 0"
proof -
  have "\<not> reducedMotion (win 1 26) moving"
    by (simp add: reducedMotion_def win_def)
  from ticks_closed_form [of moving "win 1 26" 0 30, OF moving_simps(1,2,3) this
      moving_simps(5,6,7)] moving_simps(4) pow30
  show ?thesis by (simp add: moving_simps)
qed


text \<open>
  C4, amended. From velocity 1 with friction 0.92, attraction 0.04 and threshold 0.02,
  on a running tracker with a tick pending, each tick multiplies the velocity by
  \<open>0.92 * 0.96 = 0.8832\<close>: after \<open>n \<le> 31\<close> ticks it is \<open>0.8832 ^ n\<close>, not below
  the threshold, and the next tick is scheduled (after 30 ticks it is about 0.0241).
  The 32nd tick brings it to \<open>0.8832 ^ 32\<close>, about 0.0188 and below the threshold,
  so the velocity is set to exactly 0, no frame is requested or pending, and further
  ticks change nothing.
\<close>

theorem decay_run_settles_at_32:
  assumes "reachable s" "isRunning s" "rafId s \<noteq> 0" "\<not> reducedMotion w s"
    "velocity s = 1" "friction s = 0.92" "attraction s = 0.04" "threshold s = 0.02"
  shows "(\<forall>n \<le> 31. velocity ((tick w ^^ n) s) = 0.8832 ^ n
            \<and> threshold s \<le> velocity ((tick w ^^ n) s)
            \<and> rafId ((tick w ^^ n) s) \<noteq> 0)
     \<and> 0.024 < velocity ((tick w ^^ 30) s) \<and> velocity ((tick w ^^ 30) s) < 0.0241
     \<and> 0.0187 < (0.8832::real) ^ 32 \<and> (0.8832::real) ^ 32 < 0.0188
     \<and> velocity ((tick w ^^ 32) s) = 0 \<and> rafId ((tick w ^^ 32) s) = 0
     \<and> frames ((tick w ^^ 32) s) = {}
     \<and> (\<forall>m. (tick w ^^ (32 + m)) s = (tick w ^^ 32) s)"
proof -
  have v0: "velocity s = 0.8832 ^ 0" using assms(5) by simp
  have closed: "\<And>n. n \<le> 31 \<Longrightarrow>
      velocity ((tick w ^^ n) s) = 0.8832 ^ n
      \<and> friction ((tick w ^^ n) s) = 0.92 \<and> attraction ((tick w ^^ n) s) = 0.04
      \<and> threshold ((tick w ^^ n) s) = 0.02 \<and> isRunning ((tick w ^^ n) s)
      \<and> \<not> reducedMotion w ((tick w ^^ n) s)
      \<and> rafId ((tick w ^^ n) s) \<noteq> 0 \<and> reachable ((tick w ^^ n) s)"
    using ticks_closed_form [OF assms(1,2,3,4,6,7,8) v0] by simp
  have before: "\<forall>n \<le> 31. velocity ((tick w ^^ n) s) = 0.8832 ^ n
            \<and> threshold s \<le> velocity ((tick w ^^ n) s)
            \<and> rafId ((tick w ^^ n) s) \<noteq> 0"
    using closed pow_le31 by (simp add: assms(8))
  have at30: "0.024 < velocity ((tick w ^^ 30) s) \<and> velocity ((tick w ^^ 30) s) < 0.0241"
    using closed [of 30] pow30 by simp
  let ?s31 = "(tick w ^^ 31) s"
  note c31 = closed [of 31, OF order_refl]
  have v31: "velocity ?s31 = 0.8832 ^ 31" and f31: "friction ?s31 = 0.92"
    and a31: "attraction ?s31 = 0.04" and t31: "threshold ?s31 = 0.02"
    and n31: "\<not> reducedMotion w ?s31" and r31: "rafId ?s31 \<noteq> 0"
    and re31: "reachable ?s31"
    using c31 by blast+
  have e: "(0.8832::real) ^ 32 = 0.8832 ^ 31 * (0.92 * (1 - 0.04))"
    by (simp add: power_divide)
  have "velocity ?s31 * friction ?s31 * (1 - attraction ?s31) = 0.8832 ^ 32"
    by (simp only: v31 f31 a31 e mult.assoc)
  then have "\<bar>velocity ?s31 * friction ?s31 * (1 - attraction ?s31)\<bar> < threshold ?s31"
    using pow32 by (simp add: t31)
  with re31 r31 n31 have snap: "velocity (tick w ?s31) = 0 \<and> rafId (tick w ?s31) = 0
      \<and> frames (tick w ?s31) = {} \<and> reachable (tick w ?s31)"
    by (rule tick_snap)
  have s32: "(tick w ^^ 32) s = tick w ?s31"
  proof -
    have "(32::nat) = Suc 31" by simp
    then show ?thesis by (simp only: funpow.simps o_apply)
  qed
  have after: "\<forall>m. (tick w ^^ (32 + m)) s = (tick w ^^ 32) s"
  proof
    fix m
    have "(tick w ^^ (32 + m)) s = (tick w ^^ m) ((tick w ^^ 32) s)"
      by (simp only: add.commute [of 32 m] funpow_add o_apply)
    also have "\<dots> = (tick w ^^ 32) s"
      using snap by (simp only: s32) (simp add: ticks_settled)
    finally show "(tick w ^^ (32 + m)) s = (tick w ^^ 32) s" .
  qed
  have fin: "velocity ((tick w ^^ 32) s) = 0 \<and> rafId ((tick w ^^ 32) s) = 0
      \<and> frames ((tick w ^^ 32) s) = {}"
    using snap by (simp only: s32)
  from before at30 pow32 fin after show ?thesis by blast
qed

theorem decay_run_settles_at_32_witness:
  "reachable moving \<and> isRunning moving \<and> rafId moving \<noteq> 0
   \<and> \<not> reducedMotion (win 1 26) moving \<and> velocity moving = 1 \<and> friction moving = 0.92
   \<and> attraction moving = 0.04 \<and> threshold moving = 0.02
   \<and> velocity ((tick (win 1 26) ^^ 31) moving) = 0.8832 ^ 31
   \<and> velocity ((tick (win 1 26) ^^ 32) moving) = 0
   \<and> rafId ((tick (win 1 26) ^^ 32) moving) = 0
   \<and> frames ((tick (win 1 26) ^^ 32) moving) = {}"
proof -
  have n: "\<not> reducedMotion (win 1 26) moving"
    by (simp add: reducedMotion_def win_def)
  from decay_run_settles_at_32 [of moving "win 1 26", OF moving_simps(1,2,3) n moving_simps(4,5,6,7)]
  show ?thesis using n by (simp add: moving_simps)
qed

subsection \<open>One sample in hybrid mode\<close>

text \<open>
  C9. A tracker constructed with the defaults and started at position 0 and time 0
  (hybrid mode, responsiveness 0.35, velocity 0) gets one scroll event at position
  100 and time 50. The estimate is computed by the branch for \<open>t > 25\<close>:
  \<open>(100 / 50) * adaptiveScale\<close> with \<open>adaptiveScale = 6 + 2 ln 50\<close>, which lies
  between 13.82 and 13.825; the estimate lies between 27.64 and 27.65; the velocity
  after the blend is the estimate times 0.35 (the clamp at 200 does not bind) and
  lies between 9.67 and 9.68.
\<close>

theorem default_hybrid_sample:
  "instantaneous (sampleMode started) (readScrollY (win 100 50) - lastScrollY started)
       (deltaT_of (now (win 100 50)) (lastTime started))
     = (100 / 50) * (6 + ln 50 * 2)
   \<and> 13.82 < 6 + ln 50 * (2::real) \<and> 6 + ln 50 * (2::real) < 13.825
   \<and> 27.64 < instantaneous (Str ''hybrid'') 100 50
   \<and> instantaneous (Str ''hybrid'') 100 50 < 27.65
   \<and> velocity (onScroll (win 100 50) started) = instantaneous (Str ''hybrid'') 100 50 * 0.35
   \<and> 9.67 < velocity (onScroll (win 100 50) started)
   \<and> velocity (onScroll (win 100 50) started) < 9.68"
proof -
  have i: "instantaneous (Str ''hybrid'') 100 50 = (100 / 50) * (6 + ln 50 * 2)"
    by (simp add: instantaneous_def)
  have a: "instantaneous (sampleMode started) (readScrollY (win 100 50) - lastScrollY started)
       (deltaT_of (now (win 100 50)) (lastTime started))
     = instantaneous (Str ''hybrid'') 100 50"
    by (simp add: started_simps win_def readScrollY_def deltaT_of_def num_or_def)
  have s: "13.82 < 6 + ln 50 * (2::real) \<and> 6 + ln 50 * (2::real) < 13.825"
    using ln_50_bounds by simp
  have b: "27.64 < instantaneous (Str ''hybrid'') 100 50
      \<and> instantaneous (Str ''hybrid'') 100 50 < 27.65"
    using s by (simp add: i)
  have "\<not> reducedMotion (win 100 50) started"
    by (simp add: reducedMotion_def win_def)
  then have "velocity (onScroll (win 100 50) started)
      = clamp (instantaneous (Str ''hybrid'') 100 50 * 0.35) (- 200) 200"
    using a by (simp add: onScroll_def Let_def velocity_ensureFrame started_simps)
  also have "\<dots> = instantaneous (Str ''hybrid'') 100 50 * 0.35"
    using b by (simp add: clamp_def)
  finally have v: "velocity (onScroll (win 100 50) started)
      = instantaneous (Str ''hybrid'') 100 50 * 0.35" .
  have vb: "9.67 < velocity (onScroll (win 100 50) started)
      \<and> velocity (onScroll (win 100 50) started) < 9.68"
    using b by (simp add: v)
  from a i s b v vb show ?thesis by (simp only:) 
qed

end
